theory Spec2Isabelle
  imports Complex_Main
begin

section \<open>WanderMart: the mock persistence and query layer\<close>

text \<open>
  The service functions of the mock API read a slice from the browser's local storage,
  filter or change it, write it back and return an envelope. This theory embeds those
  functions as state-passing HOL functions over a typed picture of the storage and proves
  the properties the specification states about them.
\<close>

subsection \<open>Strings, numbers and truthiness\<close>

text \<open>
  A string is a list of 8-bit characters; a string outside ASCII stands for its UTF-8
  bytes. Comparison with \<open>===\<close>, concatenation, splitting at \<open>@\<close> and the substring
  test are the same on the bytes as on the characters. \<open>String.prototype.toLowerCase\<close>
  is a table of the platform and is not bytewise: the functions that call it take it as
  the parameter \<open>lc\<close>, and \<open>toLowerCase_ascii\<close> below is its restriction to ASCII
  text, used where a concrete lowering is needed.

  A \<open>number\<close> of the source is only stored and copied, never computed with; it is
  modelled as a real. The price and the stock of a product are the exception, see the
  product record: \<open>createProduct\<close> takes them from its caller, where they can be
  \<open>NaN\<close> or infinite, and the storage cannot hold such a number.
\<close>

type_synonym number = real

definition lower_char :: "char \<Rightarrow> char" where
  "lower_char c =
     (case map_of (zip ''ABCDEFGHIJKLMNOPQRSTUVWXYZ'' ''abcdefghijklmnopqrstuvwxyz'') c of
        Some d \<Rightarrow> d
      | None \<Rightarrow> c)"

definition toLowerCase_ascii :: "string \<Rightarrow> string" where
  "toLowerCase_ascii s = map lower_char s"

text \<open>
  \<open>x || d\<close> and \<open>if (x)\<close> on an optional string take \<open>undefined\<close> and the empty
  string alike as false. \<open>truthy\<close> keeps a value exactly when the source treats it as
  true.
\<close>

definition truthy :: "string option \<Rightarrow> string option" where
  "truthy x = (case x of None \<Rightarrow> None | Some s \<Rightarrow> if s = [] then None else Some s)"

text \<open>\<open>s.split(sep)[0]\<close>: the part of \<open>s\<close> before the first separator, all of it if there is none.\<close>

definition split_first :: "char \<Rightarrow> string \<Rightarrow> string" where
  "split_first sep s = takeWhile (\<lambda>c. c \<noteq> sep) s"

text \<open>\<open>hay.includes(needle)\<close>: the needle starts at some position of the hay.\<close>

primrec startsWith :: "string \<Rightarrow> string \<Rightarrow> bool" where
  "startsWith hay [] = True"
| "startsWith hay (c # cs) = (case hay of [] \<Rightarrow> False | h # hs \<Rightarrow> h = c \<and> startsWith hs cs)"

primrec includes_str :: "string \<Rightarrow> string \<Rightarrow> bool" where
  "includes_str [] needle = (needle = [])"
| "includes_str (h # hs) needle = (startsWith (h # hs) needle \<or> includes_str hs needle)"

text \<open>A number inside a template literal: \<open>Date.now()\<close> is a natural number, printed in decimal.\<close>

fun decimal :: "nat \<Rightarrow> string" where
  "decimal n =
     (if n < 10 then [''0123456789'' ! n]
      else decimal (n div 10) @ [''0123456789'' ! (n mod 10)])"

declare decimal.simps [simp del]

text \<open>An optional string inside a template literal: \<open>undefined\<close> prints as the word.\<close>

definition template :: "string option \<Rightarrow> string" where
  "template x = (case x of None \<Rightarrow> ''undefined'' | Some s \<Rightarrow> s)"

text \<open>\<open>xs.findIndex(p)\<close>, with \<open>None\<close> for the source's \<open>-1\<close>.\<close>

primrec findIndex :: "('a \<Rightarrow> bool) \<Rightarrow> 'a list \<Rightarrow> nat option" where
  "findIndex p [] = None"
| "findIndex p (x # xs) =
     (if p x then Some 0 else (case findIndex p xs of None \<Rightarrow> None | Some i \<Rightarrow> Some (Suc i)))"

subsection \<open>The data model (types.ts)\<close>

datatype UserRole = GUEST | TRAVELER | MERCHANT | ADMIN

datatype userStatus = Active | Pending | Rejected

record user =
  u_id :: string
  u_username :: string
  u_email :: string
  u_role :: UserRole
  u_token :: "string option"
  u_status :: userStatus
  u_qualificationUrl :: "string option"

record attraction =
  a_id :: string
  a_title :: string
  a_description :: string
  a_address :: string
  a_region :: string
  a_province :: "string option"
  a_city :: "string option"
  a_county :: "string option"
  a_tags :: "string list"
  a_imageUrl :: string
  a_gallery :: "string list option"
  a_openHours :: "string option"
  a_drivingTips :: "string option"

datatype postStatus = PostActive | PostReported | PostHidden

record comment =
  c_id :: string
  c_userId :: string
  c_username :: string
  c_content :: string
  c_createdAt :: string

record post =
  p_id :: string
  p_attractionId :: string
  p_userId :: string
  p_username :: string
  p_content :: string
  p_rating :: "number option"
  p_imageUrl :: "string option"
  p_likes :: number
  p_comments :: "comment list"
  p_createdAt :: string
  p_status :: postStatus

text \<open>
  A product as it occurs at run time. \<open>createProduct\<close> copies \<open>merchantId\<close>,
  \<open>name\<close>, \<open>description\<close>, \<open>price\<close> and \<open>stock\<close> from a partial input under the
  non-null assertion \<open>!\<close>, which is erased at run time: a product whose input lacked
  one of them lacks it too, although the interface declares it, so these fields are
  optional here.

  The parameter is the type of the price and the stock. In a product just built they
  are numbers of JavaScript (\<open>jsNumber\<close>: a finite number, \<open>NaN\<close> or an infinity). In
  a product read from the storage they are what JSON can hold (\<open>jsonNumber\<close>):
  \<open>JSON.stringify\<close> writes \<open>null\<close> for a number that is not finite.
\<close>

datatype jsNumber = Finite real | NaN | PosInfinity | NegInfinity

datatype jsonNumber = JNum real | JNull

definition json_number :: "jsNumber \<Rightarrow> jsonNumber" where
  "json_number n = (case n of Finite r \<Rightarrow> JNum r | _ \<Rightarrow> JNull)"

record 'n product =
  pr_id :: string
  pr_merchantId :: "string option"
  pr_merchantName :: string
  pr_attractionId :: "string option"
  pr_attractionName :: "string option"
  pr_name :: "string option"
  pr_description :: "string option"
  pr_price :: "'n option"
  pr_stock :: "'n option"
  pr_imageUrl :: string

text \<open>
  \<open>JSON.parse (JSON.stringify p)\<close> for a product \<open>p\<close> just built: strings stay, an
  absent field stays absent, the two numbers become what JSON holds.
\<close>

definition json_product :: "jsNumber product \<Rightarrow> jsonNumber product" where
  "json_product p =
     \<lparr>pr_id = pr_id p,
      pr_merchantId = pr_merchantId p,
      pr_merchantName = pr_merchantName p,
      pr_attractionId = pr_attractionId p,
      pr_attractionName = pr_attractionName p,
      pr_name = pr_name p,
      pr_description = pr_description p,
      pr_price = map_option json_number (pr_price p),
      pr_stock = map_option json_number (pr_stock p),
      pr_imageUrl = pr_imageUrl p\<rparr>"

record cartItem = "jsonNumber product" +
  quantity :: number

datatype orderStatus = OrderPending | Shipped | Delivered | Cancelled

record order' =
  o_id :: string
  o_userId :: string
  o_items :: "cartItem list"
  o_total :: number
  o_status :: orderStatus
  o_trackingNumber :: "string option"
  o_createdAt :: string

record 'a apiResponse =
  success :: bool
  data :: "'a option"
  message :: "string option"

text \<open>
  \<open>Partial<T>\<close>: every field of the interface may be absent. \<open>None\<close> is an absent key.
\<close>

record partialUser =
  pu_id :: "string option"
  pu_username :: "string option"
  pu_email :: "string option"
  pu_role :: "UserRole option"
  pu_token :: "string option"
  pu_status :: "userStatus option"
  pu_qualificationUrl :: "string option"

record partialAttraction =
  pa_id :: "string option"
  pa_title :: "string option"
  pa_description :: "string option"
  pa_address :: "string option"
  pa_region :: "string option"
  pa_province :: "string option"
  pa_city :: "string option"
  pa_county :: "string option"
  pa_tags :: "string list option"
  pa_imageUrl :: "string option"
  pa_gallery :: "string list option"
  pa_openHours :: "string option"
  pa_drivingTips :: "string option"

record partialProduct =
  pp_id :: "string option"
  pp_merchantId :: "string option"
  pp_merchantName :: "string option"
  pp_attractionId :: "string option"
  pp_attractionName :: "string option"
  pp_name :: "string option"
  pp_description :: "string option"
  pp_price :: "jsNumber option"
  pp_stock :: "jsNumber option"
  pp_imageUrl :: "string option"

record attractionFilters =
  f_province :: "string option"
  f_city :: "string option"
  f_county :: "string option"
  f_query :: "string option"
  f_tag :: "string option"

subsection \<open>Envelopes and faults\<close>

definition ok :: "'a \<Rightarrow> 'a apiResponse" where
  "ok v = \<lparr>success = True, data = Some v, message = None\<rparr>"

definition failed :: "string \<Rightarrow> 'a apiResponse" where
  "failed m = \<lparr>success = False, data = None, message = Some m\<rparr>"

text \<open>
  Two ways a call does not return an envelope of well-typed data.
  \<open>TypeError\<close> is the exception JavaScript throws when a method is called on
  \<open>undefined\<close>. \<open>AssertionViolated\<close> marks a run of \<open>register\<close> or
  \<open>createAttraction\<close> in which a field under the non-null assertion \<open>!\<close> is absent:
  the assertion is erased at run time, the source goes on and builds a user or an
  attraction that lacks a field its interface declares, and such objects are outside the
  declared types of users and attractions modelled here, so the model stops at that
  point. \<open>createProduct\<close> has no such stop: products are modelled with these fields
  optional.
\<close>

datatype fault = TypeError | AssertionViolated

subsection \<open>Local storage\<close>

text \<open>
  One key per entity type; \<open>None\<close> is a key that was never written. What is stored is the
  JSON text of the slice; \<open>JSON.parse\<close> after \<open>JSON.stringify\<close> gives the typed value
  back (an absent optional field stays absent), so the model keeps the value. The product
  slice holds products with the numbers of JSON; a product just built enters it through
  \<open>json_product\<close>.
\<close>

record localStorage =
  mock_users :: "user list option"
  mock_attractions :: "attraction list option"
  mock_posts :: "post list option"
  mock_products :: "jsonNumber product list option"
  mock_orders :: "order' list option"

definition getStorage :: "'a option \<Rightarrow> 'a \<Rightarrow> 'a" where
  "getStorage stored defaultVal = (case stored of Some v \<Rightarrow> v | None \<Rightarrow> defaultVal)"

subsection \<open>Fixtures: the slices a never-written key reads as\<close>

text \<open>The Chinese place names of the fixtures, as UTF-8 bytes.\<close>

definition Sichuan_Sheng :: string where
  \<comment> \<open>U+56DB U+5DDD U+7701\<close>
  "Sichuan_Sheng =
     [CHR 0xE5, CHR 0x9B, CHR 0x9B, CHR 0xE5, CHR 0xB7, CHR 0x9D, CHR 0xE7, CHR 0x9C, CHR 0x81]"

definition Chengdu_Shi :: string where
  \<comment> \<open>U+6210 U+90FD U+5E02\<close>
  "Chengdu_Shi =
     [CHR 0xE6, CHR 0x88, CHR 0x90, CHR 0xE9, CHR 0x83, CHR 0xBD, CHR 0xE5, CHR 0xB8, CHR 0x82]"

definition Chenghua_Qu :: string where
  \<comment> \<open>U+6210 U+534E U+533A\<close>
  "Chenghua_Qu =
     [CHR 0xE6, CHR 0x88, CHR 0x90, CHR 0xE5, CHR 0x8D, CHR 0x8E, CHR 0xE5, CHR 0x8C, CHR 0xBA]"

definition Beijing_Shi :: string where
  \<comment> \<open>U+5317 U+4EAC U+5E02\<close>
  "Beijing_Shi =
     [CHR 0xE5, CHR 0x8C, CHR 0x97, CHR 0xE4, CHR 0xBA, CHR 0xAC, CHR 0xE5, CHR 0xB8, CHR 0x82]"

definition Dongcheng_Qu :: string where
  \<comment> \<open>U+4E1C U+57CE U+533A\<close>
  "Dongcheng_Qu =
     [CHR 0xE4, CHR 0xB8, CHR 0x9C, CHR 0xE5, CHR 0x9F, CHR 0x8E, CHR 0xE5, CHR 0x8C, CHR 0xBA]"

definition Zhejiang_Sheng :: string where
  \<comment> \<open>U+6D59 U+6C5F U+7701\<close>
  "Zhejiang_Sheng =
     [CHR 0xE6, CHR 0xB5, CHR 0x99, CHR 0xE6, CHR 0xB1, CHR 0x9F, CHR 0xE7, CHR 0x9C, CHR 0x81]"

definition Hangzhou_Shi :: string where
  \<comment> \<open>U+676D U+5DDE U+5E02\<close>
  "Hangzhou_Shi =
     [CHR 0xE6, CHR 0x9D, CHR 0xAD, CHR 0xE5, CHR 0xB7, CHR 0x9E, CHR 0xE5, CHR 0xB8, CHR 0x82]"

definition Xihu_Qu :: string where
  \<comment> \<open>U+897F U+6E56 U+533A\<close>
  "Xihu_Qu =
     [CHR 0xE8, CHR 0xA5, CHR 0xBF, CHR 0xE6, CHR 0xB9, CHR 0x96, CHR 0xE5, CHR 0x8C, CHR 0xBA]"

definition Aba_Zizhizhou :: string where
  \<comment> \<open>U+963F U+575D U+85CF U+65CF U+7F8C U+65CF U+81EA U+6CBB U+5DDE\<close>
  "Aba_Zizhizhou =
     [CHR 0xE9, CHR 0x98, CHR 0xBF, CHR 0xE5, CHR 0x9D, CHR 0x9D, CHR 0xE8, CHR 0x97, CHR 0x8F,
      CHR 0xE6, CHR 0x97, CHR 0x8F, CHR 0xE7, CHR 0xBE, CHR 0x8C, CHR 0xE6, CHR 0x97, CHR 0x8F, CHR 0xE8, CHR 0x87, CHR 0xAA,
      CHR 0xE6, CHR 0xB2, CHR 0xBB, CHR 0xE5, CHR 0xB7, CHR 0x9E]"

definition Jiuzhaigou_Xian :: string where
  \<comment> \<open>U+4E5D U+5BE8 U+6C9F U+53BF\<close>
  "Jiuzhaigou_Xian =
     [CHR 0xE4, CHR 0xB9, CHR 0x9D, CHR 0xE5, CHR 0xAF, CHR 0xA8, CHR 0xE6, CHR 0xB2, CHR 0x9F, CHR 0xE5, CHR 0x8E, CHR 0xBF]"

definition Aba_Zhou :: string where
  \<comment> \<open>U+963F U+575D U+5DDE\<close>
  "Aba_Zhou =
     [CHR 0xE9, CHR 0x98, CHR 0xBF, CHR 0xE5, CHR 0x9D, CHR 0x9D, CHR 0xE5, CHR 0xB7, CHR 0x9E]"

definition Dujiangyan_Shi :: string where
  \<comment> \<open>U+90FD U+6C5F U+5830 U+5E02\<close>
  "Dujiangyan_Shi =
     [CHR 0xE9, CHR 0x83, CHR 0xBD, CHR 0xE6, CHR 0xB1, CHR 0x9F, CHR 0xE5, CHR 0xA0, CHR 0xB0, CHR 0xE5, CHR 0xB8, CHR 0x82]"

definition MOCK_ATTRACTIONS :: "attraction list" where
  "MOCK_ATTRACTIONS =
    [\<lparr>a_id = ''1'',
      a_title = ''Chengdu Research Base of Giant Panda Breeding'',
      a_description = ''A world-renowned breeding and research center for giant pandas.'',
      a_address = ''1375 Panda Rd, Chenghua District, Chengdu'',
      a_region = Sichuan_Sheng @ '' '' @ Chengdu_Shi,
      a_province = Some Sichuan_Sheng,
      a_city = Some Chengdu_Shi,
      a_county = Some Chenghua_Qu,
      a_tags = [''Nature'', ''Animals'', ''Family''],
      a_imageUrl = ''https://picsum.photos/800/600?random=1'',
      a_gallery = Some
       [''https://picsum.photos/800/600?random=101'',
        ''https://picsum.photos/800/600?random=102'',
        ''https://picsum.photos/800/600?random=103''],
      a_openHours = Some ''07:30 - 18:00'',
      a_drivingTips = Some ''Accessible by Metro Line 3. Parking available at South Gate.''\<rparr>,
     \<lparr>a_id = ''2'',
      a_title = ''The Palace Museum (Forbidden City)'',
      a_description = ''Imperial palace of the Ming and Qing dynasties. A masterpiece of Chinese architecture.'',
      a_address = ''4 Jingshan Front St, Dongcheng District, Beijing'',
      a_region = Beijing_Shi @ '' '' @ Dongcheng_Qu,
      a_province = Some Beijing_Shi,
      a_city = Some Beijing_Shi,
      a_county = Some Dongcheng_Qu,
      a_tags = [''History'', ''Culture'', ''Architecture''],
      a_imageUrl = ''https://picsum.photos/800/600?random=2'',
      a_gallery = Some
       [''https://picsum.photos/800/600?random=201'',
        ''https://picsum.photos/800/600?random=202''],
      a_openHours = Some ''08:30 - 17:00'',
      a_drivingTips = Some ''No public parking. Use public transport (Metro Line 1).''\<rparr>,
     \<lparr>a_id = ''3'',
      a_title = ''West Lake Cultural Landscape'',
      a_description = ''Freshwater lake divided by causeways, famous for its scenic beauty and temples.'',
      a_address = ''Xihu District, Hangzhou, Zhejiang'',
      a_region = Zhejiang_Sheng @ '' '' @ Hangzhou_Shi,
      a_province = Some Zhejiang_Sheng,
      a_city = Some Hangzhou_Shi,
      a_county = Some Xihu_Qu,
      a_tags = [''Nature'', ''History'', ''Water''],
      a_imageUrl = ''https://picsum.photos/800/600?random=3'',
      a_gallery = Some
       [''https://picsum.photos/800/600?random=301''],
      a_openHours = Some ''24 Hours'',
      a_drivingTips = Some ''Traffic restrictions on weekends based on license plates.''\<rparr>,
     \<lparr>a_id = ''4'',
      a_title = ''Jiuzhaigou Valley'',
      a_description = ''Nature reserve and national park known for its many multi-level waterfalls and colorful lakes.'',
      a_address = ''Jiuzhaigou County, Ngawa Tibetan and Qiang Autonomous Prefecture, Sichuan'',
      a_region = Sichuan_Sheng @ '' '' @ Aba_Zhou,
      a_province = Some Sichuan_Sheng,
      a_city = Some Aba_Zizhizhou,
      a_county = Some Jiuzhaigou_Xian,
      a_tags = [''Nature'', ''Hiking'', ''Photography''],
      a_imageUrl = ''https://picsum.photos/800/600?random=4'',
      a_gallery = Some
       [''https://picsum.photos/800/600?random=401'',
        ''https://picsum.photos/800/600?random=402'',
        ''https://picsum.photos/800/600?random=403'',
        ''https://picsum.photos/800/600?random=404''],
      a_openHours = Some ''08:00 - 17:00'',
      a_drivingTips = Some ''Mountain roads. Careful driving required in winter.''\<rparr>,
     \<lparr>a_id = ''5'',
      a_title = ''Mount Qingcheng'',
      a_description = ''One of the birthplaces of Taoism, featuring lush forests and ancient temples.'',
      a_address = ''Dujiangyan, Chengdu, Sichuan'',
      a_region = Sichuan_Sheng @ '' '' @ Chengdu_Shi,
      a_province = Some Sichuan_Sheng,
      a_city = Some Chengdu_Shi,
      a_county = Some Dujiangyan_Shi,
      a_tags = [''Culture'', ''Hiking'', ''Mountain''],
      a_imageUrl = ''https://picsum.photos/800/600?random=5'',
      a_gallery = None,
      a_openHours = Some ''08:00 - 17:30'',
      a_drivingTips = Some ''Take Chengguan Expressway. Parking lot is 2km from gate (shuttle available).''\<rparr>]"

definition MOCK_PRODUCTS :: "jsonNumber product list" where
  "MOCK_PRODUCTS =
    [\<lparr>pr_id = ''p1'',
      pr_merchantId = Some ''m1'',
      pr_merchantName = ''Panda Souvenirs'',
      pr_attractionId = Some ''1'',
      pr_attractionName = Some ''Chengdu Research Base of Giant Panda Breeding'',
      pr_name = Some ''Plush Panda Toy'',
      pr_description = Some ''Soft and cuddly panda plush.'',
      pr_price = Some (JNum 25),
      pr_stock = Some (JNum 100),
      pr_imageUrl = ''https://picsum.photos/400/400?random=10''\<rparr>,
     \<lparr>pr_id = ''p2'',
      pr_merchantId = Some ''m1'',
      pr_merchantName = ''Panda Souvenirs'',
      pr_attractionId = Some ''5'',
      pr_attractionName = Some ''Mount Qingcheng'',
      pr_name = Some ''Bamboo Fan'',
      pr_description = Some ''Traditional hand fan made of bamboo.'',
      pr_price = Some (JNum (25 / 2)),
      pr_stock = Some (JNum 50),
      pr_imageUrl = ''https://picsum.photos/400/400?random=11''\<rparr>]"

definition INITIAL_USERS :: "user list" where
  "INITIAL_USERS =
    [\<lparr>u_id = ''admin1'', u_username = ''Admin User'', u_email = ''admin@test.com'',
      u_role = ADMIN, u_token = None, u_status = Active, u_qualificationUrl = None\<rparr>,
     \<lparr>u_id = ''m1'', u_username = ''Merchant User'', u_email = ''merchant@test.com'',
      u_role = MERCHANT, u_token = None, u_status = Active,
      u_qualificationUrl = Some ''https://picsum.photos/200/300''\<rparr>,
     \<lparr>u_id = ''u1'', u_username = ''Traveler User'', u_email = ''user@test.com'',
      u_role = TRAVELER, u_token = None, u_status = Active, u_qualificationUrl = None\<rparr>]"

text \<open>The slices as the service functions read them.\<close>

definition users_of :: "localStorage \<Rightarrow> user list" where
  "users_of st = getStorage (mock_users st) INITIAL_USERS"

definition attractions_of :: "localStorage \<Rightarrow> attraction list" where
  "attractions_of st = getStorage (mock_attractions st) MOCK_ATTRACTIONS"

definition posts_of :: "localStorage \<Rightarrow> post list" where
  "posts_of st = getStorage (mock_posts st) []"

definition products_of :: "localStorage \<Rightarrow> jsonNumber product list" where
  "products_of st = getStorage (mock_products st) MOCK_PRODUCTS"

definition orders_of :: "localStorage \<Rightarrow> order' list" where
  "orders_of st = getStorage (mock_orders st) []"

subsection \<open>Auth services\<close>

text \<open>
  Every service function takes the storage and returns the envelope with the storage
  after the call. The simulated delay has no effect on either and is left out.
\<close>

definition login ::
  "(string \<Rightarrow> string) \<Rightarrow> localStorage \<Rightarrow> string \<Rightarrow> string \<Rightarrow> user apiResponse \<times> localStorage"
where
  "login lc st email password =
     (let users = getStorage (mock_users st) INITIAL_USERS;
          user = find (\<lambda>u. lc (u_email u) = lc email) users
      in case user of
           Some u \<Rightarrow> (ok (u\<lparr>u_token := Some (''mock-jwt-'' @ u_id u)\<rparr>), st)
         | None \<Rightarrow>
             (failed ''Invalid credentials. Try user@test.com, merchant@test.com, or admin@test.com'',
              st))"

text \<open>
  \<open>now\<close> is the value of \<open>Date.now()\<close>. The object literal is evaluated field by field:
  the user name first, where \<open>userData.email!.split\<close> throws on an absent email, then
  the email itself.
\<close>

definition register ::
  "localStorage \<Rightarrow> partialUser \<Rightarrow> string \<Rightarrow> nat \<Rightarrow> fault + (user apiResponse \<times> localStorage)"
where
  "register st userData password now =
     (let users = getStorage (mock_users st) INITIAL_USERS
      in if find (\<lambda>u. Some (u_email u) = pu_email userData) users \<noteq> None
         then Inr (failed ''Email already exists'', st)
         else
           let status = (if pu_role userData = Some MERCHANT then Pending else Active)
           in case (case truthy (pu_username userData) of
                      Some n \<Rightarrow> Inr n
                    | None \<Rightarrow>
                        (case pu_email userData of
                           None \<Rightarrow> Inl TypeError
                         | Some e \<Rightarrow> Inr (split_first CHR ''@'' e))) of
                Inl f \<Rightarrow> Inl f
              | Inr username \<Rightarrow>
                  (case pu_email userData of
                     None \<Rightarrow> Inl AssertionViolated
                   | Some e \<Rightarrow>
                       let newUser =
                             \<lparr>u_id = ''u-'' @ decimal now,
                              u_username = username,
                              u_email = e,
                              u_role = (case pu_role userData of Some r \<Rightarrow> r | None \<Rightarrow> TRAVELER),
                              u_token = Some ''mock-jwt-new'',
                              u_status = status,
                              u_qualificationUrl = pu_qualificationUrl userData\<rparr>
                       in Inr (ok newUser, st\<lparr>mock_users := Some (users @ [newUser])\<rparr>)))"

definition updateUserStatus ::
  "localStorage \<Rightarrow> string \<Rightarrow> userStatus \<Rightarrow> bool apiResponse \<times> localStorage"
where
  "updateUserStatus st userId status =
     (let users = getStorage (mock_users st) INITIAL_USERS;
          updatedUsers = map (\<lambda>u. if u_id u = userId then u\<lparr>u_status := status\<rparr> else u) users
      in (ok True, st\<lparr>mock_users := Some updatedUsers\<rparr>))"

subsection \<open>Attraction services\<close>

text \<open>
  The filters run one after the other, each only when its field is a non-empty string.
\<close>

definition getAttractions ::
  "(string \<Rightarrow> string) \<Rightarrow> localStorage \<Rightarrow> attractionFilters
     \<Rightarrow> attraction list apiResponse \<times> localStorage"
where
  "getAttractions lc st filters =
     (let data0 = getStorage (mock_attractions st) MOCK_ATTRACTIONS;
          data1 = (case truthy (f_province filters) of
                     Some p \<Rightarrow> filter (\<lambda>a. a_province a = Some p) data0
                   | None \<Rightarrow> data0);
          data2 = (case truthy (f_city filters) of
                     Some c \<Rightarrow> filter (\<lambda>a. a_city a = Some c) data1
                   | None \<Rightarrow> data1);
          data3 = (case truthy (f_county filters) of
                     Some c \<Rightarrow> filter (\<lambda>a. a_county a = Some c) data2
                   | None \<Rightarrow> data2);
          data4 = (case truthy (f_tag filters) of
                     Some t \<Rightarrow> filter (\<lambda>a. List.member (a_tags a) t) data3
                   | None \<Rightarrow> data3);
          data5 = (case truthy (f_query filters) of
                     Some query \<Rightarrow>
                       (let q = lc query
                        in filter (\<lambda>a. includes_str (lc (a_title a)) q
                                      \<or> includes_str (lc (a_description a)) q) data4)
                   | None \<Rightarrow> data4)
      in (ok data5, st))"

definition getAttractionById ::
  "localStorage \<Rightarrow> string \<Rightarrow> attraction apiResponse \<times> localStorage"
where
  "getAttractionById st ident =
     (let data = getStorage (mock_attractions st) MOCK_ATTRACTIONS;
          attraction = find (\<lambda>a. a_id a = ident) data
      in case attraction of
           Some a \<Rightarrow> (ok a, st)
         | None \<Rightarrow> (failed ''Not found'', st))"

text \<open>
  \<open>title\<close>, \<open>description\<close> and \<open>address\<close> are declared strings and read under \<open>!\<close>;
  \<open>province\<close>, \<open>city\<close> and \<open>county\<close> are optional in the interface, so an absent one
  is stored as absent and printed as \<open>undefined\<close> in the region label.
\<close>

definition createAttraction ::
  "localStorage \<Rightarrow> partialAttraction \<Rightarrow> nat
     \<Rightarrow> fault + (attraction apiResponse \<times> localStorage)"
where
  "createAttraction st attractionData now =
     (let attractions = getStorage (mock_attractions st) MOCK_ATTRACTIONS
      in case (pa_title attractionData, pa_description attractionData,
               pa_address attractionData) of
           (Some title, Some description, Some address) \<Rightarrow>
             (let newAttraction =
                    \<lparr>a_id = ''attr-'' @ decimal now,
                     a_title = title,
                     a_description = description,
                     a_address = address,
                     a_region = template (pa_province attractionData) @ '' ''
                                  @ template (pa_city attractionData),
                     a_province = pa_province attractionData,
                     a_city = pa_city attractionData,
                     a_county = pa_county attractionData,
                     a_tags = (case pa_tags attractionData of Some ts \<Rightarrow> ts | None \<Rightarrow> []),
                     a_imageUrl = (case truthy (pa_imageUrl attractionData) of
                                     Some u \<Rightarrow> u
                                   | None \<Rightarrow> ''https://picsum.photos/800/600?random=99''),
                     a_gallery = Some (case pa_gallery attractionData of
                                         Some g \<Rightarrow> g
                                       | None \<Rightarrow> []),
                     a_openHours = pa_openHours attractionData,
                     a_drivingTips = pa_drivingTips attractionData\<rparr>
              in Inr (ok newAttraction,
                      st\<lparr>mock_attractions := Some (newAttraction # attractions)\<rparr>))
         | _ \<Rightarrow> Inl AssertionViolated)"

text \<open>
  \<open>{ ...a, ...updates }\<close>: a key present in \<open>updates\<close> replaces the field of \<open>a\<close>,
  the id included. \<open>attractions[index] = ...\<close> writes into the array just read; when the
  key was never written that array is the fixture itself, but the call then writes the
  key, and no function of this layer removes a key, so the fixture is not read again.
\<close>

definition merge_attraction :: "attraction \<Rightarrow> partialAttraction \<Rightarrow> attraction" where
  "merge_attraction a updates =
     \<lparr>a_id = (case pa_id updates of Some v \<Rightarrow> v | None \<Rightarrow> a_id a),
      a_title = (case pa_title updates of Some v \<Rightarrow> v | None \<Rightarrow> a_title a),
      a_description = (case pa_description updates of Some v \<Rightarrow> v | None \<Rightarrow> a_description a),
      a_address = (case pa_address updates of Some v \<Rightarrow> v | None \<Rightarrow> a_address a),
      a_region = (case pa_region updates of Some v \<Rightarrow> v | None \<Rightarrow> a_region a),
      a_province = (case pa_province updates of Some v \<Rightarrow> Some v | None \<Rightarrow> a_province a),
      a_city = (case pa_city updates of Some v \<Rightarrow> Some v | None \<Rightarrow> a_city a),
      a_county = (case pa_county updates of Some v \<Rightarrow> Some v | None \<Rightarrow> a_county a),
      a_tags = (case pa_tags updates of Some v \<Rightarrow> v | None \<Rightarrow> a_tags a),
      a_imageUrl = (case pa_imageUrl updates of Some v \<Rightarrow> v | None \<Rightarrow> a_imageUrl a),
      a_gallery = (case pa_gallery updates of Some v \<Rightarrow> Some v | None \<Rightarrow> a_gallery a),
      a_openHours = (case pa_openHours updates of Some v \<Rightarrow> Some v | None \<Rightarrow> a_openHours a),
      a_drivingTips =
        (case pa_drivingTips updates of Some v \<Rightarrow> Some v | None \<Rightarrow> a_drivingTips a)\<rparr>"

definition updateAttraction ::
  "localStorage \<Rightarrow> string \<Rightarrow> partialAttraction \<Rightarrow> attraction apiResponse \<times> localStorage"
where
  "updateAttraction st ident updates =
     (let attractions = getStorage (mock_attractions st) MOCK_ATTRACTIONS
      in case findIndex (\<lambda>a. a_id a = ident) attractions of
           None \<Rightarrow> (failed ''Attraction not found'', st)
         | Some index \<Rightarrow>
             (let updatedAttraction = merge_attraction (attractions ! index) updates
              in (ok updatedAttraction,
                  st\<lparr>mock_attractions := Some (attractions[index := updatedAttraction])\<rparr>)))"

definition deleteAttraction ::
  "localStorage \<Rightarrow> string \<Rightarrow> bool apiResponse \<times> localStorage"
where
  "deleteAttraction st ident =
     (let attractions = getStorage (mock_attractions st) MOCK_ATTRACTIONS;
          attractions' = filter (\<lambda>a. a_id a \<noteq> ident) attractions
      in (ok True, st\<lparr>mock_attractions := Some attractions'\<rparr>))"

subsection \<open>Post services\<close>

definition getPosts ::
  "localStorage \<Rightarrow> string option \<Rightarrow> post list apiResponse \<times> localStorage"
where
  "getPosts st attractionId =
     (let allPosts = getStorage (mock_posts st) [];
          visiblePosts = filter (\<lambda>p. p_status p = PostActive) allPosts;
          filtered = (case truthy attractionId of
                        Some aid \<Rightarrow> filter (\<lambda>p. p_attractionId p = aid) visiblePosts
                      | None \<Rightarrow> visiblePosts)
      in (ok filtered, st))"

definition reportPost ::
  "localStorage \<Rightarrow> string \<Rightarrow> bool apiResponse \<times> localStorage"
where
  "reportPost st postId =
     (let posts = getStorage (mock_posts st) [];
          updated = map (\<lambda>p. if p_id p = postId then p\<lparr>p_status := PostReported\<rparr> else p) posts
      in (ok True, st\<lparr>mock_posts := Some updated\<rparr>))"

subsection \<open>Product services\<close>

text \<open>
  \<open>Date.now()\<close> is read for the id and, when no image is given, once more for the
  image address: \<open>now\<close> and \<open>now'\<close>. The envelope carries the product as built;
  \<open>setStorage\<close> writes the JSON text of the slice with it, so the storage holds
  \<open>json_product newProduct\<close> behind the products it held.
\<close>

definition createProduct ::
  "localStorage \<Rightarrow> partialProduct \<Rightarrow> nat \<Rightarrow> nat
     \<Rightarrow> jsNumber product apiResponse \<times> localStorage"
where
  "createProduct st product now now' =
     (let attractionName =
            (case truthy (pp_attractionId product) of
               None \<Rightarrow> None
             | Some aid \<Rightarrow>
                 (let attractions = getStorage (mock_attractions st) MOCK_ATTRACTIONS
                  in case find (\<lambda>a. a_id a = aid) attractions of
                       Some attr \<Rightarrow> Some (a_title attr)
                     | None \<Rightarrow> None));
          newProduct =
            \<lparr>pr_id = ''prod-'' @ decimal now,
             pr_merchantId = pp_merchantId product,
             pr_merchantName = (case truthy (pp_merchantName product) of
                                  Some n \<Rightarrow> n
                                | None \<Rightarrow> ''My Store''),
             pr_attractionId = pp_attractionId product,
             pr_attractionName = attractionName,
             pr_name = pp_name product,
             pr_description = pp_description product,
             pr_price = pp_price product,
             pr_stock = pp_stock product,
             pr_imageUrl = (case truthy (pp_imageUrl product) of
                              Some u \<Rightarrow> u
                            | None \<Rightarrow>
                                ''https://picsum.photos/400/400?random='' @ decimal now')\<rparr>;
          products = getStorage (mock_products st) MOCK_PRODUCTS
      in (ok newProduct, st\<lparr>mock_products := Some (products @ [json_product newProduct])\<rparr>))"

subsection \<open>Order services\<close>

text \<open>
  The callback of \<open>orders.map\<close> also assigns the variable \<open>updatedOrder\<close>: the walk
  carries it along, so it ends as the update of the last order with the id.
\<close>

definition update_order :: "orderStatus \<Rightarrow> string option \<Rightarrow> order' \<Rightarrow> order'" where
  "update_order status trackingNumber ord =
     ord\<lparr>o_status := status,
       o_trackingNumber := (case truthy trackingNumber of
                              Some t \<Rightarrow> Some t
                            | None \<Rightarrow> o_trackingNumber ord)\<rparr>"

primrec map_orders ::
  "string \<Rightarrow> orderStatus \<Rightarrow> string option \<Rightarrow> order' option \<Rightarrow> order' list
     \<Rightarrow> order' list \<times> order' option"
where
  "map_orders orderId status trackingNumber updatedOrder [] = ([], updatedOrder)"
| "map_orders orderId status trackingNumber updatedOrder (ord # ords) =
     (if o_id ord = orderId
      then (let u = update_order status trackingNumber ord;
                (rest, final) = map_orders orderId status trackingNumber (Some u) ords
            in (u # rest, final))
      else (let (rest, final) = map_orders orderId status trackingNumber updatedOrder ords
            in (ord # rest, final)))"

definition updateOrderStatus ::
  "localStorage \<Rightarrow> string \<Rightarrow> orderStatus \<Rightarrow> string option
     \<Rightarrow> order' apiResponse \<times> localStorage"
where
  "updateOrderStatus st orderId status trackingNumber =
     (let orders = getStorage (mock_orders st) [];
          (updatedOrders, updatedOrder) = map_orders orderId status trackingNumber None orders
      in case updatedOrder of
           None \<Rightarrow> (failed ''Order not found'', st)
         | Some u \<Rightarrow> (ok u, st\<lparr>mock_orders := Some updatedOrders\<rparr>))"

subsection \<open>Admin services\<close>

definition getReportedContent ::
  "localStorage \<Rightarrow> post list apiResponse \<times> localStorage"
where
  "getReportedContent st =
     (let posts = getStorage (mock_posts st) []
      in (ok (filter (\<lambda>p. p_status p = PostReported) posts), st))"

subsection \<open>Observations, the specification's predicates and example data\<close>

text \<open>The five slices as a reader of the storage sees them.\<close>

definition slices ::
  "localStorage
     \<Rightarrow> user list \<times> attraction list \<times> post list \<times> jsonNumber product list \<times> order' list"
where
  "slices st = (users_of st, attractions_of st, posts_of st, products_of st, orders_of st)"

text \<open>The specification's substring: the needle lies between a front and a back part.\<close>

definition is_substring :: "string \<Rightarrow> string \<Rightarrow> bool" where
  "is_substring needle hay = (\<exists>front back. hay = front @ needle @ back)"

text \<open>
  The filter as the specification words it: every filter that is given takes part, a
  region filter by equality, the tag by membership, the query by a case-insensitive
  substring of the title or of the description.
\<close>

definition matches_given :: "(string \<Rightarrow> string) \<Rightarrow> attractionFilters \<Rightarrow> attraction \<Rightarrow> bool" where
  "matches_given lc filters a =
     ((case f_province filters of None \<Rightarrow> True | Some p \<Rightarrow> a_province a = Some p)
      \<and> (case f_city filters of None \<Rightarrow> True | Some c \<Rightarrow> a_city a = Some c)
      \<and> (case f_county filters of None \<Rightarrow> True | Some c \<Rightarrow> a_county a = Some c)
      \<and> (case f_tag filters of None \<Rightarrow> True | Some t \<Rightarrow> t \<in> set (a_tags a))
      \<and> (case f_query filters of
            None \<Rightarrow> True
          | Some q \<Rightarrow> is_substring (lc q) (lc (a_title a))
                       \<or> is_substring (lc q) (lc (a_description a))))"

text \<open>The same with an empty string counted as no filter.\<close>

definition drop_empty :: "attractionFilters \<Rightarrow> attractionFilters" where
  "drop_empty filters =
     \<lparr>f_province = truthy (f_province filters),
      f_city = truthy (f_city filters),
      f_county = truthy (f_county filters),
      f_query = truthy (f_query filters),
      f_tag = truthy (f_tag filters)\<rparr>"

text \<open>A browser that never stored anything, and inputs with every field absent.\<close>

definition fresh_storage :: localStorage where
  "fresh_storage =
     \<lparr>mock_users = None, mock_attractions = None, mock_posts = None,
      mock_products = None, mock_orders = None\<rparr>"

definition no_user_fields :: partialUser where
  "no_user_fields =
     \<lparr>pu_id = None, pu_username = None, pu_email = None, pu_role = None,
      pu_token = None, pu_status = None, pu_qualificationUrl = None\<rparr>"

definition no_attraction_fields :: partialAttraction where
  "no_attraction_fields =
     \<lparr>pa_id = None, pa_title = None, pa_description = None, pa_address = None,
      pa_region = None, pa_province = None, pa_city = None, pa_county = None,
      pa_tags = None, pa_imageUrl = None, pa_gallery = None, pa_openHours = None,
      pa_drivingTips = None\<rparr>"

definition no_product_fields :: partialProduct where
  "no_product_fields =
     \<lparr>pp_id = None, pp_merchantId = None, pp_merchantName = None, pp_attractionId = None,
      pp_attractionName = None, pp_name = None, pp_description = None, pp_price = None,
      pp_stock = None, pp_imageUrl = None\<rparr>"

definition no_filters :: attractionFilters where
  "no_filters =
     \<lparr>f_province = None, f_city = None, f_county = None, f_query = None, f_tag = None\<rparr>"

definition demo_post :: "string \<Rightarrow> string \<Rightarrow> postStatus \<Rightarrow> post" where
  "demo_post ident aid status =
     \<lparr>p_id = ident, p_attractionId = aid, p_userId = ''u1'', p_username = ''Traveler User'',
      p_content = ''Lovely place'', p_rating = Some 5, p_imageUrl = None, p_likes = 0,
      p_comments = [], p_createdAt = ''2024-05-01T08:00:00.000Z'', p_status = status\<rparr>"

definition demo_posts :: "post list" where
  "demo_posts =
     [demo_post ''post-1'' ''1'' PostActive,
      demo_post ''post-2'' ''1'' PostReported,
      demo_post ''post-3'' ''2'' PostHidden,
      demo_post ''post-4'' ''2'' PostActive]"

definition demo_order :: "string \<Rightarrow> orderStatus \<Rightarrow> string option \<Rightarrow> order'" where
  "demo_order ident status tracking =
     \<lparr>o_id = ident, o_userId = ''u1'', o_items = [], o_total = 0, o_status = status,
      o_trackingNumber = tracking, o_createdAt = ''2024-05-01T08:00:00.000Z''\<rparr>"

text \<open>Two users whose emails differ in the case of one letter.\<close>

definition user_A :: user where
  "user_A =
     \<lparr>u_id = ''u-1'', u_username = ''A'', u_email = ''A@x.com'', u_role = TRAVELER,
      u_token = Some ''mock-jwt-new'', u_status = Active, u_qualificationUrl = None\<rparr>"

definition user_a :: user where
  "user_a =
     \<lparr>u_id = ''u-2'', u_username = ''a'', u_email = ''a@x.com'', u_role = TRAVELER,
      u_token = Some ''mock-jwt-new'', u_status = Active, u_qualificationUrl = None\<rparr>"

text \<open>An attraction to create, with the six fields the form always fills.\<close>

definition leshan :: partialAttraction where
  "leshan =
     no_attraction_fields
       \<lparr>pa_title := Some ''Leshan Giant Buddha'',
        pa_description := Some ''A stone statue carved out of a cliff face.'',
        pa_address := Some ''2345 Lingyun Rd, Leshan'',
        pa_province := Some ''Sichuan'',
        pa_city := Some ''Leshan'',
        pa_county := Some ''Shizhong''\<rparr>"

text \<open>Filters as the home page sends them: an empty string for a region level not chosen.\<close>

definition sichuan_hiking_valley :: attractionFilters where
  "sichuan_hiking_valley =
     \<lparr>f_province = Some Sichuan_Sheng, f_city = Some '''', f_county = None,
      f_query = Some ''VALLEY'', f_tag = Some ''Hiking''\<rparr>"

text \<open>
  A product for the first seeded attraction whose stock field was left empty in the form
  (\<open>parseInt('')\<close> is \<open>NaN\<close>), as built at the clock readings 7 and 8, and a new title
  for that attraction.
\<close>

definition panda_mug :: partialProduct where
  "panda_mug =
     no_product_fields
       \<lparr>pp_merchantId := Some ''m1'', pp_attractionId := Some ''1'',
        pp_name := Some ''Panda Mug'', pp_description := Some ''A mug with a panda on it.'',
        pp_price := Some (Finite 8), pp_stock := Some NaN\<rparr>"

definition panda_mug_built :: "jsNumber product" where
  "panda_mug_built =
     \<lparr>pr_id = ''prod-7'', pr_merchantId = Some ''m1'', pr_merchantName = ''My Store'',
      pr_attractionId = Some ''1'',
      pr_attractionName = Some ''Chengdu Research Base of Giant Panda Breeding'',
      pr_name = Some ''Panda Mug'', pr_description = Some ''A mug with a panda on it.'',
      pr_price = Some (Finite 8), pr_stock = Some NaN,
      pr_imageUrl = ''https://picsum.photos/400/400?random=8''\<rparr>"

definition panda_mug_stored :: "jsonNumber product" where
  "panda_mug_stored =
     \<lparr>pr_id = ''prod-7'', pr_merchantId = Some ''m1'', pr_merchantName = ''My Store'',
      pr_attractionId = Some ''1'',
      pr_attractionName = Some ''Chengdu Research Base of Giant Panda Breeding'',
      pr_name = Some ''Panda Mug'', pr_description = Some ''A mug with a panda on it.'',
      pr_price = Some (JNum 8), pr_stock = Some JNull,
      pr_imageUrl = ''https://picsum.photos/400/400?random=8''\<rparr>"

definition new_title :: partialAttraction where
  "new_title = no_attraction_fields\<lparr>pa_title := Some ''Panda Base''\<rparr>"

text \<open>
  Two updates that change the id of an attraction, to the empty string and to the id of
  the first seeded attraction, and a product input as the product form sends it when no
  attraction is chosen: the attraction id is the empty string.
\<close>

definition empty_id :: partialAttraction where
  "empty_id = no_attraction_fields\<lparr>pa_id := Some ''''\<rparr>"

definition id_one :: partialAttraction where
  "id_one = no_attraction_fields\<lparr>pa_id := Some ''1''\<rparr>"

definition unlinked_mug :: partialProduct where
  "unlinked_mug = panda_mug\<lparr>pp_attractionId := Some ''''\<rparr>"

definition unlinked_mug_built :: "jsNumber product" where
  "unlinked_mug_built = panda_mug_built\<lparr>pr_attractionId := Some '''', pr_attractionName := None\<rparr>"

section \<open>Properties\<close>

subsection \<open>Helper facts\<close>

lemma find_first_match:
  "\<lbrakk>xs = pre @ x # post; P x; \<forall>v\<in>set pre. \<not> P v\<rbrakk> \<Longrightarrow> find P xs = Some x"
  by (induction pre arbitrary: xs) auto

lemma find_no_match: "\<forall>v\<in>set xs. \<not> P v \<Longrightarrow> find P xs = None"
  by (induction xs) auto

lemma login_found:
  "find (\<lambda>u. lc (u_email u) = lc email) (users_of st) = Some u \<Longrightarrow>
   login lc st email password = (ok (u\<lparr>u_token := Some (''mock-jwt-'' @ u_id u)\<rparr>), st)"
  by (simp add: login_def users_of_def)

lemma login_not_found:
  "find (\<lambda>u. lc (u_email u) = lc email) (users_of st) = None \<Longrightarrow>
   login lc st email password =
     (failed ''Invalid credentials. Try user@test.com, merchant@test.com, or admin@test.com'', st)"
  by (simp add: login_def users_of_def)

subsection \<open>Posts: the status filter\<close>

text \<open>
  Claim C3. For every stored post slice and every optional attractionId argument,
  \<open>getPosts\<close> returns an envelope whose posts never have status \<open>reported\<close>, and
  \<open>getReportedContent\<close> returns an envelope whose posts never have status \<open>active\<close>.
  Neither call changes the storage.
\<close>

theorem posts_status_filter:
  "(\<exists>ps. getPosts st attractionId = (ok ps, st) \<and> (\<forall>p\<in>set ps. p_status p \<noteq> PostReported))
   \<and> (\<exists>rs. getReportedContent st = (ok rs, st) \<and> (\<forall>p\<in>set rs. p_status p \<noteq> PostActive))"
  by (auto simp: getPosts_def getReportedContent_def Let_def split: option.splits)

text \<open>
  The theorem at a slice with an active, a reported and a hidden post: the public list
  of attraction \<open>1\<close> is the active post alone, the moderation queue the reported one.
\<close>

theorem posts_status_filter_witness:
  "getPosts (fresh_storage\<lparr>mock_posts := Some demo_posts\<rparr>) (Some ''1'')
     = (ok [demo_post ''post-1'' ''1'' PostActive], fresh_storage\<lparr>mock_posts := Some demo_posts\<rparr>)
   \<and> p_status (demo_post ''post-1'' ''1'' PostActive) \<noteq> PostReported
   \<and> getReportedContent (fresh_storage\<lparr>mock_posts := Some demo_posts\<rparr>)
     = (ok [demo_post ''post-2'' ''1'' PostReported], fresh_storage\<lparr>mock_posts := Some demo_posts\<rparr>)
   \<and> p_status (demo_post ''post-2'' ''1'' PostReported) \<noteq> PostActive"
  using posts_status_filter [of "fresh_storage\<lparr>mock_posts := Some demo_posts\<rparr>" "Some ''1''"]
  by (simp add: getPosts_def getReportedContent_def getStorage_def truthy_def demo_posts_def
      demo_post_def fresh_storage_def ok_def)

subsection \<open>Login\<close>

text \<open>
  Claim C9. \<open>login\<close> succeeds with the first stored user whose lowercased email equals
  the lowercased argument, with the token \<open>mock-jwt-\<close> followed by that user's id; it
  fails with a non-empty message when no stored email matches; the password does not
  change the result, and the storage after the call is the storage before it. This holds
  for every lowercasing function \<open>lc\<close>.
\<close>

theorem login_first_case_insensitive_match:
  "(\<forall>pre u post.
      users_of st = pre @ u # post \<and> lc (u_email u) = lc email
        \<and> (\<forall>v\<in>set pre. lc (u_email v) \<noteq> lc email)
      \<longrightarrow> login lc st email password =
            (\<lparr>success = True,
              data = Some (u\<lparr>u_token := Some (''mock-jwt-'' @ u_id u)\<rparr>),
              message = None\<rparr>, st))
   \<and> ((\<forall>v\<in>set (users_of st). lc (u_email v) \<noteq> lc email)
      \<longrightarrow> (\<exists>m. m \<noteq> [] \<and> login lc st email password =
                 (\<lparr>success = False, data = None, message = Some m\<rparr>, st)))
   \<and> login lc st email password' = login lc st email password
   \<and> snd (login lc st email password) = st"
proof (intro conjI allI impI)
  fix pre u post
  assume h: "users_of st = pre @ u # post \<and> lc (u_email u) = lc email
        \<and> (\<forall>v\<in>set pre. lc (u_email v) \<noteq> lc email)"
  then have "find (\<lambda>u. lc (u_email u) = lc email) (users_of st) = Some u"
    by (intro find_first_match [where pre = pre and post = post]) auto
  then show "login lc st email password =
            (\<lparr>success = True,
              data = Some (u\<lparr>u_token := Some (''mock-jwt-'' @ u_id u)\<rparr>),
              message = None\<rparr>, st)"
    by (simp add: login_found ok_def)
next
  assume "\<forall>v\<in>set (users_of st). lc (u_email v) \<noteq> lc email"
  then have "find (\<lambda>u. lc (u_email u) = lc email) (users_of st) = None"
    by (intro find_no_match) auto
  then show "\<exists>m. m \<noteq> [] \<and> login lc st email password =
                 (\<lparr>success = False, data = None, message = Some m\<rparr>, st)"
    by (simp add: login_not_found failed_def)
next
  show "login lc st email password' = login lc st email password"
    by (simp add: login_def)
next
  show "snd (login lc st email password) = st"
    by (simp add: login_def Let_def split: option.splits)
qed

text \<open>
  The theorem on a fresh browser: \<open>USER@Test.com\<close> logs the third seeded user in,
  \<open>nobody@test.com\<close> is refused, and another password gives the same answer.
\<close>

theorem login_first_case_insensitive_match_witness:
  "login toLowerCase_ascii fresh_storage ''USER@Test.com'' ''secret'' =
     (\<lparr>success = True,
       data = Some \<lparr>u_id = ''u1'', u_username = ''Traveler User'', u_email = ''user@test.com'',
                    u_role = TRAVELER, u_token = Some ''mock-jwt-u1'', u_status = Active,
                    u_qualificationUrl = None\<rparr>,
       message = None\<rparr>, fresh_storage)
   \<and> login toLowerCase_ascii fresh_storage ''nobody@test.com'' ''secret'' =
     (\<lparr>success = False, data = None,
       message = Some ''Invalid credentials. Try user@test.com, merchant@test.com, or admin@test.com''\<rparr>,
      fresh_storage)
   \<and> login toLowerCase_ascii fresh_storage ''USER@Test.com'' ''other'' =
       login toLowerCase_ascii fresh_storage ''USER@Test.com'' ''secret''"
proof -
  let ?pre = "[\<lparr>u_id = ''admin1'', u_username = ''Admin User'', u_email = ''admin@test.com'',
      u_role = ADMIN, u_token = None, u_status = Active, u_qualificationUrl = None\<rparr>,
     \<lparr>u_id = ''m1'', u_username = ''Merchant User'', u_email = ''merchant@test.com'',
      u_role = MERCHANT, u_token = None, u_status = Active,
      u_qualificationUrl = Some ''https://picsum.photos/200/300''\<rparr>]"
  let ?u = "\<lparr>u_id = ''u1'', u_username = ''Traveler User'', u_email = ''user@test.com'',
      u_role = TRAVELER, u_token = None, u_status = Active, u_qualificationUrl = None\<rparr>"
  have users: "users_of fresh_storage = ?pre @ ?u # []"
    by (simp add: users_of_def getStorage_def fresh_storage_def INITIAL_USERS_def)
  have hit: "toLowerCase_ascii (u_email ?u) = toLowerCase_ascii ''USER@Test.com''"
    by (simp add: toLowerCase_ascii_def lower_char_def)
  have before: "\<forall>v\<in>set ?pre. toLowerCase_ascii (u_email v) \<noteq> toLowerCase_ascii ''USER@Test.com''"
    by (simp add: toLowerCase_ascii_def lower_char_def)
  have miss: "\<forall>v\<in>set (users_of fresh_storage).
                toLowerCase_ascii (u_email v) \<noteq> toLowerCase_ascii ''nobody@test.com''"
    by (simp add: users_of_def getStorage_def fresh_storage_def INITIAL_USERS_def
        toLowerCase_ascii_def lower_char_def)
  note a = login_first_case_insensitive_match
    [of fresh_storage toLowerCase_ascii "''USER@Test.com''" "''secret''" "''other''"]
  note b = login_first_case_insensitive_match
    [of fresh_storage toLowerCase_ascii "''nobody@test.com''" "''secret''" "''other''"]
  from a users hit before
  have 1: "login toLowerCase_ascii fresh_storage ''USER@Test.com'' ''secret'' =
     (\<lparr>success = True,
       data = Some (?u\<lparr>u_token := Some (''mock-jwt-'' @ u_id ?u)\<rparr>),
       message = None\<rparr>, fresh_storage)"
    by blast
  from b miss obtain m where
    2: "login toLowerCase_ascii fresh_storage ''nobody@test.com'' ''secret'' =
         (\<lparr>success = False, data = None, message = Some m\<rparr>, fresh_storage)"
    by blast
  have 3: "login toLowerCase_ascii fresh_storage ''nobody@test.com'' ''secret'' =
     (\<lparr>success = False, data = None,
       message = Some ''Invalid credentials. Try user@test.com, merchant@test.com, or admin@test.com''\<rparr>,
      fresh_storage)"
    using 2 by (simp add: login_def users_of_def getStorage_def fresh_storage_def
        INITIAL_USERS_def toLowerCase_ascii_def lower_char_def failed_def)
  from a have 4: "login toLowerCase_ascii fresh_storage ''USER@Test.com'' ''other'' =
       login toLowerCase_ascii fresh_storage ''USER@Test.com'' ''secret''"
    by blast
  from 1 3 4 show ?thesis by simp
qed

subsection \<open>Registration\<close>

text \<open>Unfolding the example states: the slices of a storage given field by field.\<close>

lemmas demo_eval =
  users_of_def attractions_of_def posts_of_def products_of_def orders_of_def
  getStorage_def fresh_storage_def

text \<open>
  What \<open>register\<close> does on an email no stored user has, and on one a stored user has
  letter for letter.
\<close>

lemma register_fresh:
  assumes e: "pu_email userData = Some e"
    and fresh: "\<forall>u\<in>set (users_of st). u_email u \<noteq> e"
  shows "register st userData password now =
    Inr (ok \<lparr>u_id = ''u-'' @ decimal now,
             u_username = (case truthy (pu_username userData) of
                             Some n \<Rightarrow> n
                           | None \<Rightarrow> split_first CHR ''@'' e),
             u_email = e,
             u_role = (case pu_role userData of Some r \<Rightarrow> r | None \<Rightarrow> TRAVELER),
             u_token = Some ''mock-jwt-new'',
             u_status = (if pu_role userData = Some MERCHANT then Pending else Active),
             u_qualificationUrl = pu_qualificationUrl userData\<rparr>,
         st\<lparr>mock_users :=
              Some (users_of st @
                [\<lparr>u_id = ''u-'' @ decimal now,
                  u_username = (case truthy (pu_username userData) of
                                  Some n \<Rightarrow> n
                                | None \<Rightarrow> split_first CHR ''@'' e),
                  u_email = e,
                  u_role = (case pu_role userData of Some r \<Rightarrow> r | None \<Rightarrow> TRAVELER),
                  u_token = Some ''mock-jwt-new'',
                  u_status = (if pu_role userData = Some MERCHANT then Pending else Active),
                  u_qualificationUrl = pu_qualificationUrl userData\<rparr>])\<rparr>)"
proof -
  from fresh have "find (\<lambda>u. Some (u_email u) = pu_email userData) (users_of st) = None"
    using e by (intro find_no_match) auto
  then show ?thesis
    using e by (simp add: register_def users_of_def Let_def split: option.splits)
qed

lemma register_used:
  assumes e: "pu_email userData = Some e"
    and used: "e \<in> set (map u_email (users_of st))"
  shows "register st userData password now = Inr (failed ''Email already exists'', st)"
proof -
  from used have "find (\<lambda>u. Some (u_email u) = pu_email userData) (users_of st) \<noteq> None"
    using e by (auto simp: find_None_iff)
  then show ?thesis
    by (simp add: register_def users_of_def Let_def)
qed

lemma split_first_at: "CHR ''@'' \<notin> set pre \<Longrightarrow> split_first CHR ''@'' (pre @ CHR ''@'' # rest) = pre"
  by (induction pre) (auto simp: split_first_def)

lemma split_first_whole: "CHR ''@'' \<notin> set e \<Longrightarrow> split_first CHR ''@'' e = e"
  by (induction e) (auto simp: split_first_def)

lemma register_rejects_same_email:
  "pu_email userData = Some e \<Longrightarrow> e \<in> set (map u_email (users_of st)) \<Longrightarrow>
   register st userData password now =
     (Inr (\<lparr>success = False, data = None, message = Some ''Email already exists''\<rparr>, st))"
  by (simp add: register_used failed_def)

text \<open>
  Claim C6. When the email of a \<open>register\<close> call is not yet used, the call returns
  \<open>success = true\<close> with the created user, appends that user to the slice, and the
  user's status is \<open>pending\<close> when the requested role is merchant and \<open>active\<close> for
  every other role, an absent role included.
\<close>

theorem register_status_by_role:
  assumes "pu_email userData = Some e"
    and "\<forall>u\<in>set (users_of st). u_email u \<noteq> e"
  shows "\<exists>newUser. register st userData password now =
           Inr (\<lparr>success = True, data = Some newUser, message = None\<rparr>,
                st\<lparr>mock_users := Some (users_of st @ [newUser])\<rparr>)
         \<and> u_email newUser = e
         \<and> u_status newUser = (if pu_role userData = Some MERCHANT then Pending else Active)"
  using register_fresh [OF assms, of password now] by (simp add: ok_def)


text \<open>The theorem on a fresh browser: a merchant starts pending, a traveler active.\<close>

theorem register_status_by_role_witness:
  "(\<exists>newUser. register fresh_storage
        (no_user_fields\<lparr>pu_email := Some ''shop@x.com'', pu_role := Some MERCHANT\<rparr>) ''pw'' 7 =
        Inr (\<lparr>success = True, data = Some newUser, message = None\<rparr>,
             fresh_storage\<lparr>mock_users := Some (INITIAL_USERS @ [newUser])\<rparr>)
      \<and> u_status newUser = Pending)
   \<and> (\<exists>newUser. register fresh_storage
        (no_user_fields\<lparr>pu_email := Some ''guest@x.com'', pu_role := Some TRAVELER\<rparr>) ''pw'' 8 =
        Inr (\<lparr>success = True, data = Some newUser, message = None\<rparr>,
             fresh_storage\<lparr>mock_users := Some (INITIAL_USERS @ [newUser])\<rparr>)
      \<and> u_status newUser = Active)"
proof -
  let ?m = "no_user_fields\<lparr>pu_email := Some ''shop@x.com'', pu_role := Some MERCHANT\<rparr>"
  let ?t = "no_user_fields\<lparr>pu_email := Some ''guest@x.com'', pu_role := Some TRAVELER\<rparr>"
  have em: "pu_email ?m = Some ''shop@x.com''" and et: "pu_email ?t = Some ''guest@x.com''"
    by (simp_all add: no_user_fields_def)
  have fm: "\<forall>u\<in>set (users_of fresh_storage). u_email u \<noteq> ''shop@x.com''"
    and ft: "\<forall>u\<in>set (users_of fresh_storage). u_email u \<noteq> ''guest@x.com''"
    by (simp_all add: demo_eval INITIAL_USERS_def)
  have u: "users_of fresh_storage = INITIAL_USERS"
    by (simp add: demo_eval)
  have rm: "pu_role ?m = Some MERCHANT" and rt: "pu_role ?t = Some TRAVELER"
    by (simp_all add: no_user_fields_def)
  from register_status_by_role [OF em fm, of "''pw''" 7]
  have 1: "\<exists>newUser. register fresh_storage ?m ''pw'' 7 =
        Inr (\<lparr>success = True, data = Some newUser, message = None\<rparr>,
             fresh_storage\<lparr>mock_users := Some (INITIAL_USERS @ [newUser])\<rparr>)
      \<and> u_status newUser = Pending"
    unfolding u rm by auto
  from register_status_by_role [OF et ft, of "''pw''" 8]
  have 2: "\<exists>newUser. register fresh_storage ?t ''pw'' 8 =
        Inr (\<lparr>success = True, data = Some newUser, message = None\<rparr>,
             fresh_storage\<lparr>mock_users := Some (INITIAL_USERS @ [newUser])\<rparr>)
      \<and> u_status newUser = Active"
    unfolding u rt by auto
  from 1 2 show ?thesis by blast
qed

text \<open>
  Claim C10. A \<open>register\<close> call with a fresh email returns the created user and
  appends that same user to the slice. When the username field is absent, the created
  user's name is the part of the email before the first \<open>@\<close> (the whole email if it has
  none); when the role field is absent, the role is traveler; the token is always
  \<open>mock-jwt-new\<close>.
\<close>

theorem register_defaults:
  assumes "pu_email userData = Some e"
    and "\<forall>u\<in>set (users_of st). u_email u \<noteq> e"
  shows "\<exists>newUser. register st userData password now =
           Inr (\<lparr>success = True, data = Some newUser, message = None\<rparr>,
                st\<lparr>mock_users := Some (users_of st @ [newUser])\<rparr>)
         \<and> (pu_username userData = None \<longrightarrow>
              (\<forall>pre rest. e = pre @ CHR ''@'' # rest \<and> CHR ''@'' \<notin> set pre
                 \<longrightarrow> u_username newUser = pre)
              \<and> (CHR ''@'' \<notin> set e \<longrightarrow> u_username newUser = e))
         \<and> (pu_role userData = None \<longrightarrow> u_role newUser = TRAVELER)
         \<and> u_token newUser = Some ''mock-jwt-new''"
  using register_fresh [OF assms, of password now]
  by (auto simp: ok_def truthy_def split_first_at split_first_whole)


text \<open>
  The theorem at \<open>ann@x.com\<close> with neither name nor role: the user stored behind the
  seeded ones is the traveler \<open>ann\<close>.
\<close>

theorem register_defaults_witness:
  "\<exists>newUser. register fresh_storage (no_user_fields\<lparr>pu_email := Some ''ann@x.com''\<rparr>) ''pw'' 7 =
        Inr (\<lparr>success = True, data = Some newUser, message = None\<rparr>,
             fresh_storage\<lparr>mock_users := Some (INITIAL_USERS @ [newUser])\<rparr>)
      \<and> u_username newUser = ''ann'' \<and> u_role newUser = TRAVELER
      \<and> u_token newUser = Some ''mock-jwt-new''"
proof -
  let ?d = "no_user_fields\<lparr>pu_email := Some ''ann@x.com''\<rparr>"
  have e: "pu_email ?d = Some ''ann@x.com''"
    by (simp add: no_user_fields_def)
  have f: "\<forall>u\<in>set (users_of fresh_storage). u_email u \<noteq> ''ann@x.com''"
    by (simp add: demo_eval INITIAL_USERS_def)
  have n: "pu_username ?d = None" and r: "pu_role ?d = None"
    by (simp_all add: no_user_fields_def)
  have s: "''ann@x.com'' = ''ann'' @ CHR ''@'' # ''x.com'' \<and> CHR ''@'' \<notin> set ''ann''"
    by simp
  have u: "users_of fresh_storage = INITIAL_USERS"
    by (simp add: demo_eval)
  from register_defaults [OF e f, of "''pw''" 7] n r s show ?thesis
    unfolding u by blast
qed

text \<open>
  Claim C1 says that a second registration with the same email up to the case of its
  letters is refused and inserts nothing. \<open>register\<close> compares the stored emails with
  \<open>===\<close>, where \<open>login\<close> compares them lowercased: on a fresh browser \<open>A@x.com\<close>
  and then \<open>a@x.com\<close> are both accepted and the slice grows by a second user, whom
  \<open>login\<close> can never reach. The theorem evaluates the two calls.
\<close>

theorem register_accepts_case_variant:
  "toLowerCase_ascii ''A@x.com'' = toLowerCase_ascii ''a@x.com''
   \<and> register fresh_storage (no_user_fields\<lparr>pu_email := Some ''A@x.com''\<rparr>) ''pw'' 1 =
       Inr (\<lparr>success = True, data = Some user_A, message = None\<rparr>,
            fresh_storage\<lparr>mock_users := Some (INITIAL_USERS @ [user_A])\<rparr>)
   \<and> register (fresh_storage\<lparr>mock_users := Some (INITIAL_USERS @ [user_A])\<rparr>)
        (no_user_fields\<lparr>pu_email := Some ''a@x.com''\<rparr>) ''pw'' 2 =
       Inr (\<lparr>success = True, data = Some user_a, message = None\<rparr>,
            fresh_storage\<lparr>mock_users := Some (INITIAL_USERS @ [user_A, user_a])\<rparr>)
   \<and> users_of (fresh_storage\<lparr>mock_users := Some (INITIAL_USERS @ [user_A, user_a])\<rparr>)
       \<noteq> users_of (fresh_storage\<lparr>mock_users := Some (INITIAL_USERS @ [user_A])\<rparr>)"
  by (simp add: register_def demo_eval INITIAL_USERS_def no_user_fields_def truthy_def
      split_first_def decimal.simps user_A_def user_a_def ok_def toLowerCase_ascii_def Let_def
      lower_char_def)

subsection \<open>Operations on an id that no entity has\<close>

lemma filter_id_absent: "ident \<notin> set (map f xs) \<Longrightarrow> filter (\<lambda>a. f a \<noteq> ident) xs = xs"
  by (induction xs) auto

lemma map_id_absent: "ident \<notin> set (map f xs) \<Longrightarrow> map (\<lambda>a. if f a = ident then g a else a) xs = xs"
  by (induction xs) auto

text \<open>
  Claim C2 says that \<open>deleteAttraction\<close>, \<open>reportPost\<close> and \<open>updateUserStatus\<close> on
  an id that no entity has return \<open>success = false\<close> with a message. They have no
  not-found branch: each maps or filters the slice and returns \<open>success = true\<close>. The
  theorem evaluates the three calls on a fresh browser at the id \<open>404\<close>, which no
  seeded entity has.
\<close>

theorem missing_id_counterexample:
  "''404'' \<notin> set (map a_id (attractions_of fresh_storage))
   \<and> success (fst (deleteAttraction fresh_storage ''404'')) = True
   \<and> message (fst (deleteAttraction fresh_storage ''404'')) = None
   \<and> ''404'' \<notin> set (map p_id (posts_of fresh_storage))
   \<and> success (fst (reportPost fresh_storage ''404'')) = True
   \<and> message (fst (reportPost fresh_storage ''404'')) = None
   \<and> ''404'' \<notin> set (map u_id (users_of fresh_storage))
   \<and> success (fst (updateUserStatus fresh_storage ''404'' Rejected)) = True
   \<and> message (fst (updateUserStatus fresh_storage ''404'' Rejected)) = None"
  by (simp add: deleteAttraction_def reportPost_def updateUserStatus_def ok_def demo_eval
      MOCK_ATTRACTIONS_def INITIAL_USERS_def)

text \<open>
  Claim C2 as amended. On an id that no entity of the slice has, each of the three
  operations returns the envelope \<open>success = true, data = true\<close> without a message, and
  all five slices read the same after the call as before it.
\<close>

theorem missing_id_still_succeeds:
  "(ident \<notin> set (map a_id (attractions_of st)) \<longrightarrow>
      fst (deleteAttraction st ident) = \<lparr>success = True, data = Some True, message = None\<rparr>
      \<and> slices (snd (deleteAttraction st ident)) = slices st)
   \<and> (postId \<notin> set (map p_id (posts_of st)) \<longrightarrow>
      fst (reportPost st postId) = \<lparr>success = True, data = Some True, message = None\<rparr>
      \<and> slices (snd (reportPost st postId)) = slices st)
   \<and> (userId \<notin> set (map u_id (users_of st)) \<longrightarrow>
      fst (updateUserStatus st userId status) = \<lparr>success = True, data = Some True, message = None\<rparr>
      \<and> slices (snd (updateUserStatus st userId status)) = slices st)"
proof (intro conjI impI)
  assume "ident \<notin> set (map a_id (attractions_of st))"
  then have "filter (\<lambda>a. a_id a \<noteq> ident) (attractions_of st) = attractions_of st"
    by (rule filter_id_absent)
  then show "slices (snd (deleteAttraction st ident)) = slices st"
    by (simp add: deleteAttraction_def slices_def users_of_def attractions_of_def posts_of_def
        products_of_def orders_of_def getStorage_def)
next
  assume "postId \<notin> set (map p_id (posts_of st))"
  then have "map (\<lambda>p. if p_id p = postId then p\<lparr>p_status := PostReported\<rparr> else p) (posts_of st)
             = posts_of st"
    by (rule map_id_absent)
  then show "slices (snd (reportPost st postId)) = slices st"
    by (simp add: reportPost_def slices_def users_of_def attractions_of_def posts_of_def
        products_of_def orders_of_def getStorage_def)
next
  assume "userId \<notin> set (map u_id (users_of st))"
  then have "map (\<lambda>u. if u_id u = userId then u\<lparr>u_status := status\<rparr> else u) (users_of st)
             = users_of st"
    by (rule map_id_absent)
  then show "slices (snd (updateUserStatus st userId status)) = slices st"
    by (simp add: updateUserStatus_def slices_def users_of_def attractions_of_def posts_of_def
        products_of_def orders_of_def getStorage_def)
qed (simp_all add: deleteAttraction_def reportPost_def updateUserStatus_def ok_def)


text \<open>The amended theorem at the id \<open>404\<close>, on the seeded slices and on the example posts.\<close>

theorem missing_id_still_succeeds_witness:
  "fst (deleteAttraction fresh_storage ''404'') = \<lparr>success = True, data = Some True, message = None\<rparr>
   \<and> attractions_of (snd (deleteAttraction fresh_storage ''404'')) = MOCK_ATTRACTIONS
   \<and> fst (reportPost (fresh_storage\<lparr>mock_posts := Some demo_posts\<rparr>) ''404'')
       = \<lparr>success = True, data = Some True, message = None\<rparr>
   \<and> posts_of (snd (reportPost (fresh_storage\<lparr>mock_posts := Some demo_posts\<rparr>) ''404'')) = demo_posts
   \<and> fst (updateUserStatus fresh_storage ''404'' Rejected)
       = \<lparr>success = True, data = Some True, message = None\<rparr>
   \<and> users_of (snd (updateUserStatus fresh_storage ''404'' Rejected)) = INITIAL_USERS"
proof -
  let ?sp = "fresh_storage\<lparr>mock_posts := Some demo_posts\<rparr>"
  have a: "''404'' \<notin> set (map a_id (attractions_of fresh_storage))"
    by (simp add: demo_eval MOCK_ATTRACTIONS_def)
  have p: "''404'' \<notin> set (map p_id (posts_of ?sp))"
    by (simp add: demo_eval demo_posts_def demo_post_def)
  have u: "''404'' \<notin> set (map u_id (users_of fresh_storage))"
    by (simp add: demo_eval INITIAL_USERS_def)
  have sl: "slices fresh_storage = (INITIAL_USERS, MOCK_ATTRACTIONS, [], MOCK_PRODUCTS, [])"
    "slices ?sp = (INITIAL_USERS, MOCK_ATTRACTIONS, demo_posts, MOCK_PRODUCTS, [])"
    by (simp_all add: slices_def demo_eval)
  note t1 = missing_id_still_succeeds [of "''404''" fresh_storage "''404''" "''404''" Rejected]
  note t2 = missing_id_still_succeeds [of "''404''" ?sp "''404''" "''404''" Rejected]
  from t1 a u sl(1)
  have 1: "fst (deleteAttraction fresh_storage ''404'') = \<lparr>success = True, data = Some True, message = None\<rparr>
      \<and> slices (snd (deleteAttraction fresh_storage ''404'')) = (INITIAL_USERS, MOCK_ATTRACTIONS, [], MOCK_PRODUCTS, [])
      \<and> fst (updateUserStatus fresh_storage ''404'' Rejected) = \<lparr>success = True, data = Some True, message = None\<rparr>
      \<and> slices (snd (updateUserStatus fresh_storage ''404'' Rejected)) = (INITIAL_USERS, MOCK_ATTRACTIONS, [], MOCK_PRODUCTS, [])"
    by simp
  from t2 p sl(2)
  have 2: "fst (reportPost ?sp ''404'') = \<lparr>success = True, data = Some True, message = None\<rparr>
      \<and> slices (snd (reportPost ?sp ''404'')) = (INITIAL_USERS, MOCK_ATTRACTIONS, demo_posts, MOCK_PRODUCTS, [])"
    by simp
  from 1 2 show ?thesis
    by (simp add: slices_def)
qed

subsection \<open>Attractions: create, then read back\<close>

text \<open>
  Claim C4. When title, description, address, province, city and county are present,
  \<open>createAttraction\<close> succeeds and puts the new record in front of the slice, and
  \<open>getAttractionById\<close> on the storage after it, with the id of the returned record,
  succeeds with that same record. The record has the
  input's fields, the id \<open>attr-\<close> followed by the clock reading, the region made of
  the province, a space and the city, the tags and the gallery of the input or else the
  empty list, and the image of the input or else the placeholder (the source defaults
  with \<open>||\<close>, so an empty image address is replaced like an absent one).
\<close>

theorem createAttraction_roundtrip:
  assumes "pa_title d = Some title" and "pa_description d = Some description"
    and "pa_address d = Some address" and "pa_province d = Some province"
    and "pa_city d = Some city" and "pa_county d = Some county"
  shows "\<exists>r st'.
      createAttraction st d now = Inr (\<lparr>success = True, data = Some r, message = None\<rparr>, st')
    \<and> attractions_of st' = r # attractions_of st
    \<and> getAttractionById st' (a_id r) = (\<lparr>success = True, data = Some r, message = None\<rparr>, st')
    \<and> r = \<lparr>a_id = ''attr-'' @ decimal now,
            a_title = title,
            a_description = description,
            a_address = address,
            a_region = province @ '' '' @ city,
            a_province = Some province,
            a_city = Some city,
            a_county = Some county,
            a_tags = (case pa_tags d of None \<Rightarrow> [] | Some ts \<Rightarrow> ts),
            a_imageUrl = (case pa_imageUrl d of
                            None \<Rightarrow> ''https://picsum.photos/800/600?random=99''
                          | Some u \<Rightarrow>
                              if u = [] then ''https://picsum.photos/800/600?random=99'' else u),
            a_gallery = Some (case pa_gallery d of None \<Rightarrow> [] | Some g \<Rightarrow> g),
            a_openHours = pa_openHours d,
            a_drivingTips = pa_drivingTips d\<rparr>"
  using assms
  by (simp add: createAttraction_def getAttractionById_def attractions_of_def getStorage_def
      ok_def template_def truthy_def Let_def split: option.splits)

text \<open>The theorem on a fresh browser, for an attraction without tags, gallery or image.\<close>

theorem createAttraction_roundtrip_witness:
  "\<exists>r st'.
      createAttraction fresh_storage leshan 7 =
        Inr (\<lparr>success = True, data = Some r, message = None\<rparr>, st')
    \<and> getAttractionById st' ''attr-7'' = (\<lparr>success = True, data = Some r, message = None\<rparr>, st')
    \<and> a_id r = ''attr-7'' \<and> a_title r = ''Leshan Giant Buddha''
    \<and> a_region r = ''Sichuan Leshan'' \<and> a_tags r = [] \<and> a_gallery r = Some []
    \<and> a_imageUrl r = ''https://picsum.photos/800/600?random=99''"
proof -
  have f: "pa_title leshan = Some ''Leshan Giant Buddha''"
    "pa_description leshan = Some ''A stone statue carved out of a cliff face.''"
    "pa_address leshan = Some ''2345 Lingyun Rd, Leshan''"
    "pa_province leshan = Some ''Sichuan''"
    "pa_city leshan = Some ''Leshan''"
    "pa_county leshan = Some ''Shizhong''"
    by (simp_all add: leshan_def no_attraction_fields_def)
  have o: "pa_tags leshan = None" "pa_imageUrl leshan = None" "pa_gallery leshan = None"
    by (simp_all add: leshan_def no_attraction_fields_def)
  have d: "decimal 7 = ''7''"
    by (simp add: decimal.simps)
  from createAttraction_roundtrip [OF f, of fresh_storage 7]
  obtain r st' where
    1: "createAttraction fresh_storage leshan 7 =
          Inr (\<lparr>success = True, data = Some r, message = None\<rparr>, st')"
    and 2: "getAttractionById st' (a_id r) =
          (\<lparr>success = True, data = Some r, message = None\<rparr>, st')"
    and 3: "r = \<lparr>a_id = ''attr-'' @ decimal 7,
            a_title = ''Leshan Giant Buddha'',
            a_description = ''A stone statue carved out of a cliff face.'',
            a_address = ''2345 Lingyun Rd, Leshan'',
            a_region = ''Sichuan'' @ '' '' @ ''Leshan'',
            a_province = Some ''Sichuan'',
            a_city = Some ''Leshan'',
            a_county = Some ''Shizhong'',
            a_tags = (case pa_tags leshan of None \<Rightarrow> [] | Some ts \<Rightarrow> ts),
            a_imageUrl = (case pa_imageUrl leshan of
                            None \<Rightarrow> ''https://picsum.photos/800/600?random=99''
                          | Some u \<Rightarrow>
                              if u = [] then ''https://picsum.photos/800/600?random=99'' else u),
            a_gallery = Some (case pa_gallery leshan of None \<Rightarrow> [] | Some g \<Rightarrow> g),
            a_openHours = pa_openHours leshan,
            a_drivingTips = pa_drivingTips leshan\<rparr>"
    by blast
  from 3 have 4: "a_id r = ''attr-7''" "a_title r = ''Leshan Giant Buddha''"
    "a_region r = ''Sichuan Leshan''" "a_tags r = []" "a_gallery r = Some []"
    "a_imageUrl r = ''https://picsum.photos/800/600?random=99''"
    by (simp_all add: o d)
  from 1 2 4 show ?thesis
    by auto
qed

subsection \<open>Orders: status and tracking number\<close>

text \<open>The walk over the orders is a map, and its variable ends at the last order with the id.\<close>

lemma map_orders_eq:
  "map_orders orderId status tracking acc xs =
     (map (\<lambda>x. if o_id x = orderId then update_order status tracking x else x) xs,
      (if filter (\<lambda>x. o_id x = orderId) xs = [] then acc
       else Some (update_order status tracking (last (filter (\<lambda>x. o_id x = orderId) xs)))))"
proof (induction xs arbitrary: acc)
  case Nil
  then show ?case by simp
next
  case (Cons x xs)
  show ?case
  proof (cases "o_id x = orderId")
    case True
    then show ?thesis
      by (simp add: Cons.IH Let_def)
  next
    case False
    then show ?thesis
      by (simp add: Cons.IH Let_def)
  qed
qed

lemma update_order_eq:
  "update_order status tracking x =
     x\<lparr>o_status := status,
       o_trackingNumber := (case tracking of
                              None \<Rightarrow> o_trackingNumber x
                            | Some t \<Rightarrow> if t = [] then o_trackingNumber x else Some t)\<rparr>"
  by (simp add: update_order_def truthy_def split: option.splits)

lemma filter_nonempty: "v \<in> set (map f xs) \<Longrightarrow> filter (\<lambda>x. f x = v) xs \<noteq> []"
  by (induction xs) auto

text \<open>
  Claim C5 says that the tracking number of the updated order equals the tracking
  argument whenever one is provided. The source writes
  \<open>trackingNumber || o.trackingNumber\<close>: an empty string is provided and yet the
  order keeps its previous tracking number. The theorem evaluates the call with the
  argument \<open>''\<close> on an order that carries \<open>TRACK99\<close>.
\<close>

theorem updateOrderStatus_empty_tracking_counterexample:
  "''ord-1'' \<in> set (map o_id (orders_of
      (fresh_storage\<lparr>mock_orders := Some [demo_order ''ord-1'' Shipped (Some ''TRACK99'')]\<rparr>)))
   \<and> fst (updateOrderStatus
        (fresh_storage\<lparr>mock_orders := Some [demo_order ''ord-1'' Shipped (Some ''TRACK99'')]\<rparr>)
        ''ord-1'' Delivered (Some ''''))
     = \<lparr>success = True, data = Some (demo_order ''ord-1'' Delivered (Some ''TRACK99'')),
        message = None\<rparr>
   \<and> o_trackingNumber (demo_order ''ord-1'' Delivered (Some ''TRACK99'')) \<noteq> Some ''''"
  by (simp add: updateOrderStatus_def update_order_def truthy_def demo_order_def demo_eval ok_def
      Let_def)

text \<open>
  Claim C5 as amended. When an order of the slice has the given id,
  \<open>updateOrderStatus\<close> returns \<open>success = true\<close> with the updated order (the last
  one with that id, should several share it). Every order with the id gets the status
  argument; its tracking number becomes the tracking argument when that is a non-empty
  string and stays what it was when the argument is absent or empty. All other fields,
  the orders with another id and the other slices are unchanged.
\<close>

theorem updateOrderStatus_sets_status:
  assumes "orderId \<in> set (map o_id (orders_of st))"
  shows "updateOrderStatus st orderId status tracking =
      (\<lparr>success = True,
        data = Some ((last (filter (\<lambda>x. o_id x = orderId) (orders_of st)))
                 \<lparr>o_status := status,
                  o_trackingNumber :=
                    (case tracking of
                       None \<Rightarrow> o_trackingNumber (last (filter (\<lambda>x. o_id x = orderId) (orders_of st)))
                     | Some t \<Rightarrow>
                         if t = []
                         then o_trackingNumber (last (filter (\<lambda>x. o_id x = orderId) (orders_of st)))
                         else Some t)\<rparr>),
        message = None\<rparr>,
       st\<lparr>mock_orders :=
            Some (map (\<lambda>x. if o_id x = orderId
                           then x\<lparr>o_status := status,
                                  o_trackingNumber :=
                                    (case tracking of
                                       None \<Rightarrow> o_trackingNumber x
                                     | Some t \<Rightarrow> if t = [] then o_trackingNumber x else Some t)\<rparr>
                           else x)
                      (orders_of st))\<rparr>)"
proof -
  from assms have ne: "filter (\<lambda>x. o_id x = orderId) (orders_of st) \<noteq> []"
    by (rule filter_nonempty)
  have "updateOrderStatus st orderId status tracking =
      (ok (update_order status tracking (last (filter (\<lambda>x. o_id x = orderId) (orders_of st)))),
       st\<lparr>mock_orders :=
            Some (map (\<lambda>x. if o_id x = orderId then update_order status tracking x else x)
                      (orders_of st))\<rparr>)"
    using ne by (simp add: updateOrderStatus_def map_orders_eq orders_of_def Let_def)
  then show ?thesis
    by (simp only: update_order_eq ok_def)
qed

text \<open>
  The amended theorem on the specification's scenario: shipping \<open>ord-1\<close> with
  \<open>TRACK99\<close>, then the same call without a tracking argument.
\<close>

theorem updateOrderStatus_sets_status_witness:
  "updateOrderStatus
     (fresh_storage\<lparr>mock_orders := Some [demo_order ''ord-1'' OrderPending None]\<rparr>)
     ''ord-1'' Shipped (Some ''TRACK99'')
   = (\<lparr>success = True, data = Some (demo_order ''ord-1'' Shipped (Some ''TRACK99'')),
       message = None\<rparr>,
      fresh_storage\<lparr>mock_orders := Some [demo_order ''ord-1'' Shipped (Some ''TRACK99'')]\<rparr>)
   \<and> updateOrderStatus
     (fresh_storage\<lparr>mock_orders := Some [demo_order ''ord-1'' Shipped (Some ''TRACK99'')]\<rparr>)
     ''ord-1'' Shipped None
   = (\<lparr>success = True, data = Some (demo_order ''ord-1'' Shipped (Some ''TRACK99'')),
       message = None\<rparr>,
      fresh_storage\<lparr>mock_orders := Some [demo_order ''ord-1'' Shipped (Some ''TRACK99'')]\<rparr>)"
proof -
  let ?s1 = "fresh_storage\<lparr>mock_orders := Some [demo_order ''ord-1'' OrderPending None]\<rparr>"
  let ?s2 = "fresh_storage\<lparr>mock_orders := Some [demo_order ''ord-1'' Shipped (Some ''TRACK99'')]\<rparr>"
  have 1: "''ord-1'' \<in> set (map o_id (orders_of ?s1))"
    and 2: "''ord-1'' \<in> set (map o_id (orders_of ?s2))"
    by (simp_all add: demo_eval demo_order_def)
  show ?thesis
    using updateOrderStatus_sets_status [OF 1, of Shipped "Some ''TRACK99''"]
      updateOrderStatus_sets_status [OF 2, of Shipped None]
    by (simp add: demo_eval demo_order_def)
qed

subsection \<open>Attractions: the filters\<close>

text \<open>
  The substring test of the source is the specification's substring, and the filters that
  run one after the other are one filter by the conjunction.
\<close>

lemma startsWith_iff: "startsWith hay needle \<longleftrightarrow> (\<exists>back. hay = needle @ back)"
  by (induction needle arbitrary: hay) (auto split: list.splits)

lemma includes_str_iff: "includes_str hay needle \<longleftrightarrow> is_substring needle hay"
proof (induction hay)
  case Nil
  then show ?case
    by (auto simp: is_substring_def)
next
  case (Cons h hs)
  show ?case
  proof
    assume "includes_str (h # hs) needle"
    then have "startsWith (h # hs) needle \<or> includes_str hs needle"
      by simp
    then show "is_substring needle (h # hs)"
    proof
      assume "startsWith (h # hs) needle"
      then obtain rear where "h # hs = needle @ rear"
        by (auto simp: startsWith_iff)
      then have "h # hs = [] @ needle @ rear"
        by simp
      then show ?thesis
        unfolding is_substring_def by blast
    next
      assume "includes_str hs needle"
      then obtain front rear where "hs = front @ needle @ rear"
        by (auto simp: Cons.IH is_substring_def)
      then have "h # hs = (h # front) @ needle @ rear"
        by simp
      then show ?thesis
        unfolding is_substring_def by blast
    qed
  next
    assume "is_substring needle (h # hs)"
    then obtain front rear where fb: "h # hs = front @ needle @ rear"
      by (auto simp: is_substring_def)
    show "includes_str (h # hs) needle"
    proof (cases front)
      case Nil
      with fb have "startsWith (h # hs) needle"
        by (auto simp: startsWith_iff)
      then show ?thesis
        by simp
    next
      case (Cons f fs)
      with fb have "hs = fs @ needle @ rear"
        by simp
      then have "is_substring needle hs"
        unfolding is_substring_def by blast
      then show ?thesis
        by (simp add: Cons.IH)
    qed
  qed
qed

lemma filter_when_given:
  "(case x of Some p \<Rightarrow> filter (Q p) xs | None \<Rightarrow> xs) =
     filter (\<lambda>a. case x of None \<Rightarrow> True | Some p \<Rightarrow> Q p a) xs"
  by (cases x) simp_all

lemma matches_given_drop_empty:
  "matches_given lc (drop_empty filters) =
     (\<lambda>a. (case truthy (f_province filters) of None \<Rightarrow> True | Some p \<Rightarrow> a_province a = Some p)
      \<and> (case truthy (f_city filters) of None \<Rightarrow> True | Some c \<Rightarrow> a_city a = Some c)
      \<and> (case truthy (f_county filters) of None \<Rightarrow> True | Some c \<Rightarrow> a_county a = Some c)
      \<and> (case truthy (f_tag filters) of None \<Rightarrow> True | Some t \<Rightarrow> List.member (a_tags a) t)
      \<and> (case truthy (f_query filters) of
            None \<Rightarrow> True
          | Some q \<Rightarrow> includes_str (lc (a_title a)) (lc q)
                       \<or> includes_str (lc (a_description a)) (lc q)))"
  by (rule ext) (simp add: matches_given_def drop_empty_def includes_str_iff split: option.splits)

lemmas place_names =
  Sichuan_Sheng_def Chengdu_Shi_def Chenghua_Qu_def Beijing_Shi_def Dongcheng_Qu_def
  Zhejiang_Sheng_def Hangzhou_Shi_def Xihu_Qu_def Aba_Zizhizhou_def Jiuzhaigou_Xian_def
  Aba_Zhou_def Dujiangyan_Shi_def

text \<open>
  Claim C7 says that \<open>getAttractions\<close> returns exactly the attractions that satisfy
  every given filter, a region filter by string equality. The source tests each filter
  with \<open>if (filters.x)\<close>, so a filter given as the empty string is skipped: with
  \<open>province = ''\<close> on a fresh browser the call returns all five seeded attractions,
  while no seeded attraction has the province \<open>''\<close>.
\<close>

theorem getAttractions_empty_filter_counterexample:
  "fst (getAttractions toLowerCase_ascii fresh_storage (no_filters\<lparr>f_province := Some ''''\<rparr>))
     = \<lparr>success = True, data = Some MOCK_ATTRACTIONS, message = None\<rparr>
   \<and> filter (matches_given toLowerCase_ascii (no_filters\<lparr>f_province := Some ''''\<rparr>))
        (attractions_of fresh_storage) = []
   \<and> MOCK_ATTRACTIONS \<noteq> []"
  by (simp add: getAttractions_def matches_given_def no_filters_def truthy_def demo_eval ok_def
      MOCK_ATTRACTIONS_def place_names)

text \<open>
  Claim C7 as amended. For every attraction slice and every combination of filters,
  \<open>getAttractions\<close> returns \<open>success = true\<close> with exactly the attractions, in
  their stored order, that satisfy the conjunction of all filters given as non-empty
  strings: province, city and county by string equality, the tag by membership in the
  tag list, the query when its lowercase form is a substring of the lowercase title or
  of the lowercase description. An absent or empty filter does not restrict the result,
  and the storage is unchanged. This holds for every lowercasing function \<open>lc\<close>.
\<close>

theorem getAttractions_filters_nonempty:
  "getAttractions lc st filters =
     (\<lparr>success = True,
       data = Some (filter (matches_given lc (drop_empty filters)) (attractions_of st)),
       message = None\<rparr>, st)"
proof (cases "truthy (f_query filters)")
  case None
  then show ?thesis
    unfolding matches_given_drop_empty
    by (simp add: getAttractions_def attractions_of_def ok_def Let_def filter_when_given)
next
  case (Some q)
  then show ?thesis
    unfolding matches_given_drop_empty
    by (simp add: getAttractions_def attractions_of_def ok_def Let_def filter_when_given)
qed

text \<open>
  The amended theorem on a fresh browser with province, an empty city, the tag
  \<open>Hiking\<close> and the query \<open>VALLEY\<close>: the fourth seeded attraction alone is returned.
\<close>

theorem getAttractions_filters_nonempty_witness:
  "getAttractions toLowerCase_ascii fresh_storage sichuan_hiking_valley =
     (\<lparr>success = True, data = Some [MOCK_ATTRACTIONS ! 3], message = None\<rparr>, fresh_storage)
   \<and> filter (matches_given toLowerCase_ascii (drop_empty sichuan_hiking_valley))
        (attractions_of fresh_storage) = [MOCK_ATTRACTIONS ! 3]"
proof -
  have ev: "getAttractions toLowerCase_ascii fresh_storage sichuan_hiking_valley =
     (\<lparr>success = True, data = Some [MOCK_ATTRACTIONS ! 3], message = None\<rparr>, fresh_storage)"
    by (simp add: getAttractions_def sichuan_hiking_valley_def truthy_def demo_eval ok_def
        MOCK_ATTRACTIONS_def place_names toLowerCase_ascii_def lower_char_def Let_def)
  with getAttractions_filters_nonempty [of toLowerCase_ascii fresh_storage sichuan_hiking_valley]
  show ?thesis
    by simp
qed

subsection \<open>Products: the attraction title is a snapshot\<close>

text \<open>
  \<open>updateAttraction\<close> writes the attraction key only; \<open>createProduct\<close> always
  succeeds, stores the product it built as JSON holds it, and takes the attraction name
  from the first attraction that has the input's non-empty attraction id.
\<close>

lemma updateAttraction_products:
  "mock_products (snd (updateAttraction st ident updates)) = mock_products st"
  by (simp add: updateAttraction_def Let_def split: option.splits)

lemma json_product_attractionName:
  "pr_attractionName (json_product p) = pr_attractionName p"
  by (simp add: json_product_def)

lemma createProduct_result:
  "\<exists>np. createProduct st product now now' =
          (\<lparr>success = True, data = Some np, message = None\<rparr>,
           st\<lparr>mock_products := Some (products_of st @ [json_product np])\<rparr>)
     \<and> pr_attractionName np =
         (case truthy (pp_attractionId product) of
            None \<Rightarrow> None
          | Some aid \<Rightarrow>
              (case find (\<lambda>a. a_id a = aid) (attractions_of st) of
                 Some attr \<Rightarrow> Some (a_title attr)
               | None \<Rightarrow> None))"
  by (simp add: createProduct_def products_of_def attractions_of_def ok_def Let_def
      split: option.splits)

text \<open>
  Claim C8 says that a product created for an existing attraction X stores X's title.
  The source looks the attraction up only under \<open>if (product.attractionId)\<close> and takes
  the first attraction \<open>find\<close> meets. \<open>updateAttraction\<close> can change an id: after the
  first seeded attraction got the id \<open>''\<close>, a product sent with the attraction id
  \<open>''\<close> (what the product form sends when no attraction is chosen) stores no
  attraction name; after the second seeded attraction got the id \<open>1\<close>, a product
  linked to \<open>1\<close> stores the first attraction's title and not the second's.
\<close>

theorem createProduct_link_counterexample:
  "a_id (hd (attractions_of (snd (updateAttraction fresh_storage ''1'' empty_id)))) = ''''
   \<and> a_title (hd (attractions_of (snd (updateAttraction fresh_storage ''1'' empty_id))))
       = ''Chengdu Research Base of Giant Panda Breeding''
   \<and> pp_attractionId unlinked_mug = Some ''''
   \<and> fst (createProduct (snd (updateAttraction fresh_storage ''1'' empty_id)) unlinked_mug 7 8)
       = \<lparr>success = True, data = Some unlinked_mug_built, message = None\<rparr>
   \<and> pr_attractionName unlinked_mug_built = None
   \<and> pr_attractionName (last (products_of (snd
         (createProduct (snd (updateAttraction fresh_storage ''1'' empty_id)) unlinked_mug 7 8))))
       = None
   \<and> a_id (attractions_of (snd (updateAttraction fresh_storage ''2'' id_one)) ! 1) = ''1''
   \<and> a_title (attractions_of (snd (updateAttraction fresh_storage ''2'' id_one)) ! 1)
       = ''The Palace Museum (Forbidden City)''
   \<and> pp_attractionId panda_mug = Some ''1''
   \<and> fst (createProduct (snd (updateAttraction fresh_storage ''2'' id_one)) panda_mug 7 8)
       = \<lparr>success = True, data = Some panda_mug_built, message = None\<rparr>
   \<and> pr_attractionName panda_mug_built \<noteq> Some ''The Palace Museum (Forbidden City)''"
  by (simp add: createProduct_def updateAttraction_def merge_attraction_def empty_id_def
      id_one_def unlinked_mug_def unlinked_mug_built_def panda_mug_def panda_mug_built_def
      no_product_fields_def no_attraction_fields_def truthy_def demo_eval MOCK_ATTRACTIONS_def
      json_product_def ok_def decimal.simps Let_def)

text \<open>
  Claim C8 as amended. For every state and every input, \<open>createProduct\<close> succeeds and
  appends the new product, as JSON stores it, to the product slice; the stored attraction
  name is the one of the returned product. When the input's attraction id is a non-empty
  string and X is the first stored attraction with that id, the stored attraction name is
  X's title at creation time. \<open>updateAttraction\<close> afterwards, on any id and with any
  updates, a new title included, leaves the stored product slice as it is, so the
  product keeps the old title.
\<close>

theorem updateAttraction_keeps_product_snapshot:
  "\<exists>np. createProduct st product now now' =
          (\<lparr>success = True, data = Some np, message = None\<rparr>,
           st\<lparr>mock_products := Some (products_of st @ [json_product np])\<rparr>)
     \<and> products_of (snd (createProduct st product now now')) = products_of st @ [json_product np]
     \<and> pr_attractionName (json_product np) = pr_attractionName np
     \<and> (\<forall>pre X post x.
           attractions_of st = pre @ X # post \<and> a_id X = x \<and> x \<notin> set (map a_id pre)
             \<and> pp_attractionId product = Some x \<and> x \<noteq> []
           \<longrightarrow> pr_attractionName (json_product np) = Some (a_title X))
     \<and> (\<forall>ident updates.
           mock_products (snd (updateAttraction (snd (createProduct st product now now')) ident updates))
             = mock_products (snd (createProduct st product now now'))
           \<and> products_of (snd (updateAttraction (snd (createProduct st product now now')) ident updates))
             = products_of st @ [json_product np])"
proof -
  from createProduct_result [of st product now now'] obtain np where
    cp: "createProduct st product now now' =
          (\<lparr>success = True, data = Some np, message = None\<rparr>,
           st\<lparr>mock_products := Some (products_of st @ [json_product np])\<rparr>)"
    and name: "pr_attractionName np =
         (case truthy (pp_attractionId product) of
            None \<Rightarrow> None
          | Some aid \<Rightarrow>
              (case find (\<lambda>a. a_id a = aid) (attractions_of st) of
                 Some attr \<Rightarrow> Some (a_title attr)
               | None \<Rightarrow> None))"
    by blast
  have p1: "products_of (snd (createProduct st product now now')) = products_of st @ [json_product np]"
    by (simp add: cp products_of_def getStorage_def)
  have link: "pr_attractionName (json_product np) = Some (a_title X)"
    if "attractions_of st = pre @ X # post \<and> a_id X = x \<and> x \<notin> set (map a_id pre)
             \<and> pp_attractionId product = Some x \<and> x \<noteq> []" for pre X post x
  proof -
    from that have "\<forall>v\<in>set pre. a_id v \<noteq> x"
      by (metis image_eqI set_map)
    with that have "find (\<lambda>a. a_id a = x) (attractions_of st) = Some X"
      by (intro find_first_match [where pre = pre and post = post]) simp_all
    moreover from that have "truthy (pp_attractionId product) = Some x"
      by (simp add: truthy_def)
    ultimately show ?thesis
      by (simp add: name json_product_attractionName)
  qed
  have frame:
    "mock_products (snd (updateAttraction (snd (createProduct st product now now')) ident updates))
       = mock_products (snd (createProduct st product now now'))
     \<and> products_of (snd (updateAttraction (snd (createProduct st product now now')) ident updates))
       = products_of st @ [json_product np]"
    for ident updates
    using p1 by (simp add: updateAttraction_products products_of_def)
  from cp p1 link frame json_product_attractionName [of np] show ?thesis
    by blast
qed

text \<open>
  The amended theorem on a fresh browser: a product for attraction \<open>1\<close>, sent with a
  stock that is not a number, is stored with that attraction's title and the stock
  \<open>null\<close>; renaming the attraction changes the attraction and not the product.
\<close>

theorem updateAttraction_keeps_product_snapshot_witness:
  "createProduct fresh_storage panda_mug 7 8 =
     (\<lparr>success = True, data = Some panda_mug_built, message = None\<rparr>,
      fresh_storage\<lparr>mock_products := Some (MOCK_PRODUCTS @ [panda_mug_stored])\<rparr>)
   \<and> json_product panda_mug_built = panda_mug_stored
   \<and> pr_stock panda_mug_built = Some NaN \<and> pr_stock panda_mug_stored = Some JNull
   \<and> a_title (MOCK_ATTRACTIONS ! 0) = ''Chengdu Research Base of Giant Panda Breeding''
   \<and> pr_attractionName panda_mug_stored = Some ''Chengdu Research Base of Giant Panda Breeding''
   \<and> a_title (hd (attractions_of (snd (updateAttraction
        (snd (createProduct fresh_storage panda_mug 7 8)) ''1'' new_title)))) = ''Panda Base''
   \<and> products_of (snd (updateAttraction
        (snd (createProduct fresh_storage panda_mug 7 8)) ''1'' new_title))
       = MOCK_PRODUCTS @ [panda_mug_stored]"
proof -
  let ?st1 = "fresh_storage\<lparr>mock_products := Some (MOCK_PRODUCTS @ [panda_mug_stored])\<rparr>"
  have js: "json_product panda_mug_built = panda_mug_stored"
    by (simp add: json_product_def json_number_def panda_mug_built_def panda_mug_stored_def)
  have cp: "createProduct fresh_storage panda_mug 7 8 =
     (\<lparr>success = True, data = Some panda_mug_built, message = None\<rparr>, ?st1)"
    by (simp add: createProduct_def panda_mug_def panda_mug_built_def panda_mug_stored_def
        no_product_fields_def json_product_def json_number_def truthy_def demo_eval
        MOCK_ATTRACTIONS_def ok_def decimal.simps Let_def)
  have at: "attractions_of fresh_storage = [] @ (MOCK_ATTRACTIONS ! 0) # tl MOCK_ATTRACTIONS
      \<and> a_id (MOCK_ATTRACTIONS ! 0) = ''1'' \<and> ''1'' \<notin> set (map a_id [])
      \<and> pp_attractionId panda_mug = Some ''1'' \<and> ''1'' \<noteq> []"
    by (simp add: demo_eval MOCK_ATTRACTIONS_def panda_mug_def no_product_fields_def)
  have t0: "a_title (MOCK_ATTRACTIONS ! 0) = ''Chengdu Research Base of Giant Panda Breeding''"
    by (simp add: MOCK_ATTRACTIONS_def)
  have pr: "products_of fresh_storage = MOCK_PRODUCTS"
    by (simp add: demo_eval)
  have st: "pr_stock panda_mug_built = Some NaN" "pr_stock panda_mug_stored = Some JNull"
    by (simp_all add: panda_mug_built_def panda_mug_stored_def)
  have up: "a_title (hd (attractions_of (snd (updateAttraction ?st1 ''1'' new_title)))) = ''Panda Base''"
    by (simp add: updateAttraction_def merge_attraction_def new_title_def
        no_attraction_fields_def demo_eval MOCK_ATTRACTIONS_def Let_def)
  from updateAttraction_keeps_product_snapshot [of fresh_storage panda_mug 7 8] obtain np where
    1: "createProduct fresh_storage panda_mug 7 8 =
          (\<lparr>success = True, data = Some np, message = None\<rparr>,
           fresh_storage\<lparr>mock_products := Some (products_of fresh_storage @ [json_product np])\<rparr>)"
    and 2: "\<forall>pre X post x.
           attractions_of fresh_storage = pre @ X # post \<and> a_id X = x \<and> x \<notin> set (map a_id pre)
             \<and> pp_attractionId panda_mug = Some x \<and> x \<noteq> []
           \<longrightarrow> pr_attractionName (json_product np) = Some (a_title X)"
    and 3: "\<forall>ident updates.
           products_of (snd (updateAttraction (snd (createProduct fresh_storage panda_mug 7 8)) ident updates))
             = products_of fresh_storage @ [json_product np]"
    by blast
  from 1 cp have np: "np = panda_mug_built"
    by simp
  from 2 at have "pr_attractionName (json_product np) = Some (a_title (MOCK_ATTRACTIONS ! 0))"
    by blast
  with np t0 js have 4: "pr_attractionName panda_mug_stored
      = Some ''Chengdu Research Base of Giant Panda Breeding''"
    by simp
  from 3 np pr js have 5: "products_of (snd (updateAttraction
        (snd (createProduct fresh_storage panda_mug 7 8)) ''1'' new_title))
      = MOCK_PRODUCTS @ [panda_mug_stored]"
    by simp
  from up cp have 6: "a_title (hd (attractions_of (snd (updateAttraction
        (snd (createProduct fresh_storage panda_mug 7 8)) ''1'' new_title)))) = ''Panda Base''"
    by simp
  from cp js st t0 4 5 6 show ?thesis
    by simp
qed

end
